theory Spec2Isabelle
  imports Main "HOL-Library.Sublist" "HOL-Library.AList"
begin

section \<open>Python values, exceptions and strings\<close>

text \<open>
  Strings are modelled as the list of the bytes of their UTF-8 encoding. Concatenation,
  \<open>str.replace\<close> with an ASCII pattern and the substring test agree on code points and on
  UTF-8 bytes, and \<open>urllib.parse.quote_plus\<close> works on the UTF-8 bytes itself.
\<close>

datatype pyval =
    PNone
  | PBool bool
  | PInt int
  | PStr string
  | PList "pyval list"
  | PDict "(string \<times> pyval) list"
  | PObj "(string \<times> pyval) list"

text \<open>Python's truth value of an argument, as used by \<open>if hint:\<close>.\<close>

fun truthy :: "pyval \<Rightarrow> bool" where
  "truthy PNone = False"
| "truthy (PBool b) = b"
| "truthy (PInt i) = (i \<noteq> 0)"
| "truthy (PStr s) = (s \<noteq> [])"
| "truthy (PList xs) = (xs \<noteq> [])"
| "truthy (PDict kvs) = (kvs \<noteq> [])"
| "truthy (PObj fs) = True"

datatype exn =
    KeyError string
  | TypeError
  | AttributeError
  | DriverError string
  | ConnectionError exn
  | PyException string

definition and_then :: "exn + 'a \<Rightarrow> ('a \<Rightarrow> exn + 'b) \<Rightarrow> exn + 'b" where
  "and_then r f = (case r of Inl e \<Rightarrow> Inl e | Inr v \<Rightarrow> f v)"

type_synonym kwargs = "(string \<times> pyval) list"

text \<open>\<open>d[k] = v\<close> on a dict held as an association list with distinct keys.\<close>

definition dict_set :: "kwargs \<Rightarrow> string \<Rightarrow> pyval \<Rightarrow> kwargs" where
  "dict_set d k v = AList.update k v d"

text \<open>Attribute access on a result object of the driver.\<close>

fun getattr :: "pyval \<Rightarrow> string \<Rightarrow> exn + pyval" where
  "getattr (PObj fs) name = (case map_of fs name of None \<Rightarrow> Inl AttributeError | Some v \<Rightarrow> Inr v)"
| "getattr _ name = Inl AttributeError"

subsection \<open>\<open>urllib.parse.quote_plus\<close>\<close>

text \<open>
  The standard library's \<open>quote_plus(s)\<close> with the default \<open>safe=''\<close>: the bytes of
  \<open>_ALWAYS_SAFE\<close> (letters, digits and \<open>_.-~\<close>) stay, a space becomes \<open>+\<close>, every other
  byte becomes \<open>%XX\<close> with two upper-case hexadecimal digits.
\<close>

definition always_safe :: "char \<Rightarrow> bool" where
  "always_safe c =
     (c \<in> set ''ABCDEFGHIJKLMNOPQRSTUVWXYZabcdefghijklmnopqrstuvwxyz0123456789_.-~'')"

definition hexdigit :: "nat \<Rightarrow> char" where
  "hexdigit n = ''0123456789ABCDEF'' ! (n mod 16)"

definition quote_byte :: "char \<Rightarrow> string" where
  "quote_byte c =
     (if always_safe c then [c]
      else if c = CHR '' '' then ''+''
      else [CHR ''%'', hexdigit (of_char c div 16), hexdigit (of_char c mod 16)])"

definition quote_plus :: "string \<Rightarrow> string" where
  "quote_plus s = concat (map quote_byte s)"

subsection \<open>\<open>str.replace\<close>\<close>

text \<open>
  \<open>s.replace(old, new)\<close> replaces the occurrences of \<open>old\<close> found from left to right,
  without overlap. With an empty \<open>old\<close>, Python puts \<open>new\<close> before every character and at
  the end.
\<close>

function replace_scan :: "string \<Rightarrow> string \<Rightarrow> string \<Rightarrow> string" where
  "replace_scan old new s =
     (if s = [] then []
      else if old \<noteq> [] \<and> prefix old s
        then new @ replace_scan old new (drop (length old) s)
      else hd s # replace_scan old new (tl s))"
  by pat_completeness auto
termination
  by (relation "measure (\<lambda>(old, new, s). length s)") auto

declare replace_scan.simps [simp del]

definition str_replace :: "string \<Rightarrow> string \<Rightarrow> string \<Rightarrow> string" where
  "str_replace s old new =
     (if old = [] then new @ concat (map (\<lambda>c. c # new) s) else replace_scan old new s)"

section \<open>The synchronous connector: \<open>DatabaseHandler\<close>\<close>

text \<open>The \<open>config\<close> argument: a dict from setting names to strings.\<close>

type_synonym config = "(string \<times> string) list"

definition getitem :: "config \<Rightarrow> string \<Rightarrow> exn + string" where
  "getitem config k = (case map_of config k of None \<Rightarrow> Inl (KeyError k) | Some v \<Rightarrow> Inr v)"

text \<open>
  Steps 1 and 2 of \<open>DatabaseHandler.__init__\<close> (lines 24 to 42): the connection string, the
  encoded password and the client's keyword arguments, or the \<open>KeyError\<close> of the first
  setting that is missing, in the order the source reads them.
\<close>

definition base_kwargs :: "string \<Rightarrow> kwargs" where
  "base_kwargs auth_db =
     [(''readPreference'', PStr ''secondaryPreferred''),
      (''w'', PStr ''majority''),
      (''retryWrites'', PBool True),
      (''socketTimeoutMS'', PInt 30000),
      (''connectTimeoutMS'', PInt 20000),
      (''serverSelectionTimeoutMS'', PInt 30000),
      (''authSource'', PStr auth_db)]"

definition init_build :: "config \<Rightarrow> exn + (string \<times> string \<times> kwargs)" where
  "init_build config =
     and_then (getitem config ''MONGO_PASSWORD'') (\<lambda>password.
     let encoded_password = quote_plus password in
     and_then (getitem config ''MONGO_USER'') (\<lambda>user.
     and_then (getitem config ''MONGO_URI'') (\<lambda>host.
     and_then (getitem config ''MONGO_DB'') (\<lambda>dbname.
     let mongo_uri = ''mongodb://'' @ user @ '':'' @ encoded_password @ ''@'' @ host @ ''/'' @ dbname in
     and_then (getitem config ''MONGO_AUTH_DB'') (\<lambda>auth_db.
     let client_kwargs = base_kwargs auth_db in
     and_then (getitem config ''MONGO_TYPE'') (\<lambda>mongo_type.
     if mongo_type = ''standalone''
       then Inr (mongo_uri, encoded_password, dict_set client_kwargs ''directConnection'' (PBool True))
     else if mongo_type = ''replica_set''
       then and_then (getitem config ''MONGO_REPLICA_SET'') (\<lambda>rs.
         Inr (mongo_uri @ ''?replicaSet='' @ rs, encoded_password,
              dict_set client_kwargs ''heartbeatFrequencyMS'' (PInt 10000)))
     else Inr (mongo_uri, encoded_password, client_kwargs)))))))"

text \<open>Step 3: the connection string with the encoded password replaced, and the line printed.\<close>

definition masked_uri :: "string \<Rightarrow> string \<Rightarrow> string" where
  "masked_uri mongo_uri encoded_password = str_replace mongo_uri encoded_password ''****''"

definition attempt_line :: "string \<Rightarrow> string \<Rightarrow> string" where
  "attempt_line mongo_uri encoded_password =
     ''Attempting to connect to MongoDB: '' @ masked_uri mongo_uri encoded_password"

subsection \<open>The driver\<close>

text \<open>
  The driver (pymongo, motor) is not part of the repository: it is a parameter. A driver
  answers a call, knowing the calls made before it, with a result or with the message of
  the exception it raises. A client object is named by the position of its constructor
  call among the calls. Resolving a database or a collection of a client
  (\<open>client[db][coll]\<close>, \<open>get_database\<close>) builds a handle without a call; the driver's
  check of the names is not modelled. \<open>close()\<close> is taken not to raise.
\<close>

type_synonym collection = "nat \<times> string \<times> string"

datatype call =
    NewClient pyval kwargs
  | Command nat "string option" string
  | Close nat
  | InsertOne collection pyval
  | InsertMany collection pyval
  | IterCursor collection pyval pyval "pyval option" "pyval option"
  | UpdateMany collection pyval pyval kwargs
  | DeleteMany collection pyval
  | Aggregate collection pyval
  | Distinct collection pyval
  | FindOne collection pyval kwargs

type_synonym driver = "call list \<Rightarrow> call \<Rightarrow> string + pyval"

text \<open>What the process has done so far: the driver calls, oldest first, and the lines
  printed on standard output. The line printed on standard error when a connection fails
  holds the driver's exception text and is not modelled.\<close>

record world =
  calls :: "call list"
  printed :: "string list"

definition invoke :: "driver \<Rightarrow> call \<Rightarrow> world \<Rightarrow> (string + pyval) \<times> world" where
  "invoke drv c w = (drv (calls w) c, w\<lparr>calls := calls w @ [c]\<rparr>)"

text \<open>A call made by an operation of the facade: the driver's exception propagates.\<close>

definition driver_call :: "driver \<Rightarrow> call \<Rightarrow> world \<Rightarrow> (pyval \<Rightarrow> exn + pyval) \<Rightarrow> (exn + pyval) \<times> world" where
  "driver_call drv c w f =
     (case invoke drv c w of
        (Inl msg, w') \<Rightarrow> (Inl (DriverError msg), w')
      | (Inr r, w') \<Rightarrow> (f r, w'))"

fun is_NewClient :: "call \<Rightarrow> bool" where
  "is_NewClient (NewClient uri kw) = True"
| "is_NewClient _ = False"

fun is_Command :: "call \<Rightarrow> bool" where
  "is_Command (Command c d name) = True"
| "is_Command _ = False"

definition clients_created :: "world \<Rightarrow> nat" where
  "clients_created w = length (filter is_NewClient (calls w))"

definition commands_sent :: "world \<Rightarrow> nat" where
  "commands_sent w = length (filter is_Command (calls w))"

subsection \<open>The singleton and its initialisation\<close>

text \<open>
  The attributes of the one instance. \<open>initialized\<close> is only ever set to \<open>True\<close>, so
  \<open>False\<close> stands for the attribute being absent; \<open>mongo_client\<close> is absent until
  line 20 has run, then \<open>None\<close> or a client.
\<close>

datatype client_attr = Unset | IsNone | Client nat

record handler =
  initialized :: bool
  config :: "config option"
  DEFAULT_MONGO_DB :: "string option"
  mongo_client :: client_attr

definition blank :: handler where
  "blank = \<lparr>initialized = False, config = None, DEFAULT_MONGO_DB = None, mongo_client = Unset\<rparr>"

definition init :: "driver \<Rightarrow> config \<Rightarrow> handler \<Rightarrow> world \<Rightarrow> (exn + unit) \<times> handler \<times> world" where
  "init drv cfg self w =
     (if initialized self then (Inr (), self, w)
      else
        let self1 = self\<lparr>config := Some cfg\<rparr> in
        case getitem cfg ''MONGO_DB'' of
          Inl e \<Rightarrow> (Inl e, self1, w)
        | Inr dbname \<Rightarrow>
            let self2 = self1\<lparr>DEFAULT_MONGO_DB := Some dbname, mongo_client := IsNone\<rparr> in
            (case init_build cfg of
               Inl e \<Rightarrow> (Inl (ConnectionError e), self2, w)
             | Inr (mongo_uri, encoded_password, client_kwargs) \<Rightarrow>
                 let w1 = w\<lparr>printed := printed w @ [attempt_line mongo_uri encoded_password]\<rparr> in
                 (case invoke drv (NewClient (PStr mongo_uri) client_kwargs) w1 of
                    (Inl msg, w2) \<Rightarrow> (Inl (ConnectionError (DriverError msg)), self2, w2)
                  | (Inr _, w2) \<Rightarrow>
                      let c = length (calls w1);
                          self3 = self2\<lparr>mongo_client := Client c\<rparr> in
                      (case invoke drv (Command c (Some ''admin'') ''ping'') w2 of
                         (Inl msg, w3) \<Rightarrow>
                           (Inl (ConnectionError (DriverError msg)), self3,
                            snd (invoke drv (Close c) w3))
                       | (Inr _, w3) \<Rightarrow>
                           (Inr (), self3\<lparr>initialized := True\<rparr>,
                            w3\<lparr>printed := printed w3 @ [''MongoDB connection successful.'']\<rparr>)))))"

text \<open>\<open>DatabaseHandler(config)\<close>: \<open>__new__\<close> hands out the one instance, creating it when
  \<open>_instance\<close> is still \<open>None\<close>, and \<open>__init__\<close> runs on it.\<close>

definition DatabaseHandler :: "driver \<Rightarrow> config \<Rightarrow> handler option \<times> world \<Rightarrow> (exn + unit) \<times> handler option \<times> world" where
  "DatabaseHandler drv cfg s =
     (let self = (case fst s of None \<Rightarrow> blank | Some h \<Rightarrow> h);
          (r, self', w') = init drv cfg self (snd s)
      in (r, Some self', w'))"

subsection \<open>The operations\<close>

definition get_mongo_collection :: "handler \<Rightarrow> string \<Rightarrow> string \<Rightarrow> exn + collection" where
  "get_mongo_collection self db_name collection_name =
     (case mongo_client self of
        Unset \<Rightarrow> Inl AttributeError
      | IsNone \<Rightarrow> Inl TypeError
      | Client c \<Rightarrow> Inr (c, db_name, collection_name))"

text \<open>The class attribute, and the default of \<open>get_mongo_db\<close>'s parameter, which is
  evaluated once, when the class body runs.\<close>

definition class_DEFAULT_MONGO_DB :: "string option" where
  "class_DEFAULT_MONGO_DB = None"

definition get_mongo_db_default :: string where
  "get_mongo_db_default =
     (case class_DEFAULT_MONGO_DB of
        None \<Rightarrow> ''panda''
      | Some s \<Rightarrow> if s = [] then ''panda'' else s)"

definition get_mongo_db :: "handler \<Rightarrow> string option \<Rightarrow> exn + (nat \<times> string)" where
  "get_mongo_db self db_name =
     (let name = (case db_name of None \<Rightarrow> get_mongo_db_default | Some n \<Rightarrow> n) in
      case mongo_client self of
        Unset \<Rightarrow> Inl AttributeError
      | IsNone \<Rightarrow> Inl TypeError
      | Client c \<Rightarrow> Inr (c, name))"

definition mongo_insert :: "driver \<Rightarrow> handler \<Rightarrow> string \<Rightarrow> string \<Rightarrow> pyval \<Rightarrow> world \<Rightarrow> (exn + pyval) \<times> world" where
  "mongo_insert drv self db_name collection_name document w =
     (case get_mongo_collection self db_name collection_name of
        Inl e \<Rightarrow> (Inl e, w)
      | Inr coll \<Rightarrow> driver_call drv (InsertOne coll document) w (\<lambda>r. getattr r ''inserted_id''))"

definition mongo_find :: "driver \<Rightarrow> handler \<Rightarrow> string \<Rightarrow> string \<Rightarrow> pyval \<Rightarrow> pyval \<Rightarrow> pyval \<Rightarrow> pyval \<Rightarrow> world \<Rightarrow> (exn + pyval) \<times> world" where
  "mongo_find drv self db_name collection_name query hint sort' projection w =
     (case get_mongo_collection self db_name collection_name of
        Inl e \<Rightarrow> (Inl e, w)
      | Inr coll \<Rightarrow>
          driver_call drv
            (IterCursor coll query projection
               (if truthy hint then Some hint else None)
               (if truthy sort' then Some sort' else None))
            w Inr)"

definition mongo_update :: "driver \<Rightarrow> handler \<Rightarrow> string \<Rightarrow> string \<Rightarrow> pyval \<Rightarrow> pyval \<Rightarrow> world \<Rightarrow> (exn + pyval) \<times> world" where
  "mongo_update drv self db_name collection_name query update w =
     (case get_mongo_collection self db_name collection_name of
        Inl e \<Rightarrow> (Inl e, w)
      | Inr coll \<Rightarrow>
          driver_call drv (UpdateMany coll query (PDict [(''$set'', update)]) []) w
            (\<lambda>r. getattr r ''modified_count''))"

text \<open>\<open>**kwargs\<close> cannot hold the names of the method's own parameters; a \<open>filter\<close> among
  them collides with the keyword the method passes itself.\<close>

definition mongo_update_one :: "driver \<Rightarrow> handler \<Rightarrow> string \<Rightarrow> string \<Rightarrow> pyval \<Rightarrow> pyval \<Rightarrow> pyval \<Rightarrow> kwargs \<Rightarrow> world \<Rightarrow> (exn + pyval) \<times> world" where
  "mongo_update_one drv self db_name collection_name query update upsert kw w =
     (case get_mongo_collection self db_name collection_name of
        Inl e \<Rightarrow> (Inl e, w)
      | Inr coll \<Rightarrow>
          if map_of kw ''filter'' \<noteq> None then (Inl TypeError, w)
          else driver_call drv (UpdateMany coll query update ((''upsert'', upsert) # kw)) w Inr)"

definition mongo_delete :: "driver \<Rightarrow> handler \<Rightarrow> string \<Rightarrow> string \<Rightarrow> pyval \<Rightarrow> world \<Rightarrow> (exn + pyval) \<times> world" where
  "mongo_delete drv self db_name collection_name query w =
     (case get_mongo_collection self db_name collection_name of
        Inl e \<Rightarrow> (Inl e, w)
      | Inr coll \<Rightarrow> driver_call drv (DeleteMany coll query) w (\<lambda>r. getattr r ''deleted_count''))"

definition mongo_insert_many :: "driver \<Rightarrow> handler \<Rightarrow> string \<Rightarrow> string \<Rightarrow> pyval \<Rightarrow> world \<Rightarrow> (exn + pyval) \<times> world" where
  "mongo_insert_many drv self db_name collection_name documents w =
     (case get_mongo_collection self db_name collection_name of
        Inl e \<Rightarrow> (Inl e, w)
      | Inr coll \<Rightarrow> driver_call drv (InsertMany coll documents) w (\<lambda>r. getattr r ''inserted_ids''))"

definition mongo_aggregate :: "driver \<Rightarrow> handler \<Rightarrow> string \<Rightarrow> string \<Rightarrow> pyval \<Rightarrow> world \<Rightarrow> (exn + pyval) \<times> world" where
  "mongo_aggregate drv self db_name collection_name aggregation_pipeline w =
     (case get_mongo_collection self db_name collection_name of
        Inl e \<Rightarrow> (Inl e, w)
      | Inr coll \<Rightarrow> driver_call drv (Aggregate coll aggregation_pipeline) w Inr)"

definition get_distinct_values :: "driver \<Rightarrow> handler \<Rightarrow> string \<Rightarrow> string \<Rightarrow> pyval \<Rightarrow> world \<Rightarrow> (exn + pyval) \<times> world" where
  "get_distinct_values drv self db_name collection_name field w =
     (case get_mongo_collection self db_name collection_name of
        Inl e \<Rightarrow> (Inl e, w)
      | Inr coll \<Rightarrow> driver_call drv (Distinct coll field) w Inr)"

definition find_args :: "pyval \<Rightarrow> pyval \<Rightarrow> pyval \<Rightarrow> kwargs" where
  "find_args hint projection sort' =
     (let a0 = [];
          a1 = (if truthy hint then dict_set a0 ''hint'' hint else a0);
          a2 = (if truthy projection then dict_set a1 ''projection'' projection else a1)
      in if truthy sort' then dict_set a2 ''sort'' sort' else a2)"

definition mongo_find_one :: "driver \<Rightarrow> handler \<Rightarrow> string \<Rightarrow> string \<Rightarrow> pyval \<Rightarrow> pyval \<Rightarrow> pyval \<Rightarrow> pyval \<Rightarrow> world \<Rightarrow> (exn + pyval) \<times> world" where
  "mongo_find_one drv self db_name collection_name query hint projection sort' w =
     (case get_mongo_collection self db_name collection_name of
        Inl e \<Rightarrow> (Inl e, w)
      | Inr coll \<Rightarrow> driver_call drv (FindOne coll query (find_args hint projection sort')) w Inr)"

section \<open>The asynchronous connector: \<open>MongoDB\<close>\<close>

text \<open>
  The settings \<open>connect_db\<close> imports from \<open>panda_server.config.env\<close>, a module that is not
  among the sources: they are a parameter, each a string or \<open>None\<close>.
\<close>

record env =
  MONGO_URI :: "string option"
  DATABASE_NAME :: "string option"
  MONGO_USER :: "string option"
  MONGO_PASSWORD :: "string option"
  MONGO_AUTH_DB :: "string option"
  MONGO_TYPE :: "string option"
  MONGO_REPLICA_SET :: "string option"

definition opt_val :: "string option \<Rightarrow> pyval" where
  "opt_val x = (case x of None \<Rightarrow> PNone | Some s \<Rightarrow> PStr s)"

text \<open>The class attributes \<open>client\<close> and \<open>db\<close>; a database handle is its client and name.\<close>

type_synonym database = "nat \<times> string option"

record mongodb =
  client :: "nat option"
  db :: "database option"

definition unconnected :: mongodb where
  "unconnected = \<lparr>client = None, db = None\<rparr>"

text \<open>Lines 34 to 48 of \<open>connect_db\<close>: the client's keyword arguments.\<close>

definition connect_kwargs :: "env \<Rightarrow> kwargs" where
  "connect_kwargs e =
     (let k0 = [(''retryWrites'', PBool True),
                (''w'', PStr ''majority''),
                (''serverSelectionTimeoutMS'', PInt 5000)];
          k1 = (if MONGO_TYPE e = Some ''standalone''
                  then dict_set k0 ''directConnection'' (PBool True)
                else if MONGO_TYPE e = Some ''replica_set''
                  then dict_set k0 ''replicaSet'' (opt_val (MONGO_REPLICA_SET e))
                else k0)
      in if truthy (opt_val (MONGO_USER e)) \<and> truthy (opt_val (MONGO_PASSWORD e))
           then dict_set
                  (dict_set (dict_set k1 ''username'' (opt_val (MONGO_USER e)))
                     ''password'' (opt_val (MONGO_PASSWORD e)))
                  ''authSource''
                  (if truthy (opt_val (MONGO_AUTH_DB e)) then opt_val (MONGO_AUTH_DB e)
                   else opt_val (DATABASE_NAME e))
         else k1)"

definition connection_error :: "string \<Rightarrow> exn" where
  "connection_error msg = PyException (''MongoDB Connection Error: '' @ msg)"

text \<open>When the constructor raises, \<open>cls.client\<close> still holds what it held before the call,
  and the handler closes that.\<close>

definition connect_db :: "driver \<Rightarrow> env \<Rightarrow> mongodb \<Rightarrow> world \<Rightarrow> (exn + database) \<times> mongodb \<times> world" where
  "connect_db drv e cls w =
     (case invoke drv (NewClient (opt_val (MONGO_URI e)) (connect_kwargs e)) w of
        (Inl msg, w1) \<Rightarrow>
          (Inl (connection_error msg), cls,
           (case client cls of None \<Rightarrow> w1 | Some c \<Rightarrow> snd (invoke drv (Close c) w1)))
      | (Inr _, w1) \<Rightarrow>
          let c = length (calls w);
              cls1 = cls\<lparr>client := Some c, db := Some (c, DATABASE_NAME e)\<rparr> in
          (case invoke drv (Command c (DATABASE_NAME e) ''ping'') w1 of
             (Inl msg, w2) \<Rightarrow> (Inl (connection_error msg), cls1, snd (invoke drv (Close c) w2))
           | (Inr _, w2) \<Rightarrow> (Inr (c, DATABASE_NAME e), cls1, w2)))"

definition close_db :: "driver \<Rightarrow> mongodb \<Rightarrow> world \<Rightarrow> mongodb \<times> world" where
  "close_db drv cls w =
     (case client cls of
        None \<Rightarrow> (cls, w)
      | Some c \<Rightarrow> (cls, snd (invoke drv (Close c) w)))"

definition get_collection :: "mongodb \<Rightarrow> string \<Rightarrow> exn + (database \<times> string)" where
  "get_collection cls collection_name =
     (case db cls of
        None \<Rightarrow> Inl (PyException ''Database not connected. Call connect_db() first.'')
      | Some d \<Rightarrow> Inr (d, collection_name))"

section \<open>Drivers and settings to run the model on\<close>

text \<open>A server that answers every call and whose collections hold no document.\<close>

fun empty_server :: driver where
  "empty_server history (NewClient uri kw) = Inr PNone"
| "empty_server history (Command c d name) = Inr (PDict [(''ok'', PInt 1)])"
| "empty_server history (Close c) = Inr PNone"
| "empty_server history (InsertOne coll document) = Inr (PObj [(''inserted_id'', PInt 1)])"
| "empty_server history (InsertMany coll documents) = Inr (PObj [(''inserted_ids'', PList [])])"
| "empty_server history (IterCursor coll query projection hint sort') = Inr (PList [])"
| "empty_server history (UpdateMany coll query update kw) =
     Inr (PObj [(''matched_count'', PInt 0), (''modified_count'', PInt 0), (''upserted_id'', PNone)])"
| "empty_server history (DeleteMany coll query) = Inr (PObj [(''deleted_count'', PInt 0)])"
| "empty_server history (Aggregate coll pipeline) = Inr (PList [])"
| "empty_server history (Distinct coll field) = Inr (PList [])"
| "empty_server history (FindOne coll query kw) = Inr PNone"

text \<open>A server that answers no command until one has timed out: the first ping fails,
  the later ones succeed.\<close>

definition flaky_server :: driver where
  "flaky_server history c =
     (if is_Command c \<and> filter is_Command history = [] then Inl ''timed out''
      else empty_server history c)"

definition standalone_config :: config where
  "standalone_config =
     [(''MONGO_USER'', ''u''), (''MONGO_PASSWORD'', ''p@ss''), (''MONGO_URI'', ''h''),
      (''MONGO_DB'', ''test''), (''MONGO_AUTH_DB'', ''admin''), (''MONGO_TYPE'', ''standalone'')]"

definition replica_config :: config where
  "replica_config =
     [(''MONGO_USER'', ''u''), (''MONGO_PASSWORD'', ''p@ss''), (''MONGO_URI'', ''h''),
      (''MONGO_DB'', ''test''), (''MONGO_AUTH_DB'', ''admin''), (''MONGO_TYPE'', ''replica_set''),
      (''MONGO_REPLICA_SET'', ''rs0'')]"

definition standalone_env :: env where
  "standalone_env =
     \<lparr>MONGO_URI = Some ''mongodb://h'', DATABASE_NAME = Some ''test'', MONGO_USER = None,
      MONGO_PASSWORD = None, MONGO_AUTH_DB = None, MONGO_TYPE = Some ''standalone'',
      MONGO_REPLICA_SET = None\<rparr>"

definition replica_env :: env where
  "replica_env = standalone_env\<lparr>MONGO_TYPE := Some ''replica_set'', MONGO_REPLICA_SET := Some ''rs0''\<rparr>"

definition start :: world where
  "start = \<lparr>calls = [], printed = []\<rparr>"

text \<open>The connection string of line 25.\<close>

definition uri_of :: "string \<Rightarrow> string \<Rightarrow> string \<Rightarrow> string \<Rightarrow> string" where
  "uri_of user password host dbname =
     ''mongodb://'' @ user @ '':'' @ quote_plus password @ ''@'' @ host @ ''/'' @ dbname"

text \<open>Settings in which the user name is the password, settings with a topology that is
  neither of the two, and settings that carry timeouts.\<close>

definition reused_config :: config where
  "reused_config =
     [(''MONGO_USER'', ''p@ss''), (''MONGO_PASSWORD'', ''p@ss''), (''MONGO_URI'', ''h''),
      (''MONGO_DB'', ''test''), (''MONGO_AUTH_DB'', ''admin''), (''MONGO_TYPE'', ''standalone'')]"

definition sharded_config :: config where
  "sharded_config =
     [(''MONGO_USER'', ''u''), (''MONGO_PASSWORD'', ''p@ss''), (''MONGO_URI'', ''h''),
      (''MONGO_DB'', ''test''), (''MONGO_AUTH_DB'', ''admin''), (''MONGO_TYPE'', ''sharded'')]"

definition no_type_config :: config where
  "no_type_config =
     [(''MONGO_USER'', ''u''), (''MONGO_PASSWORD'', ''p@ss''), (''MONGO_URI'', ''h''),
      (''MONGO_DB'', ''test''), (''MONGO_AUTH_DB'', ''admin'')]"

definition timeout_config :: config where
  "timeout_config =
     [(''MONGO_USER'', ''u''), (''MONGO_PASSWORD'', ''p@ss''), (''MONGO_URI'', ''h''),
      (''MONGO_DB'', ''test''), (''MONGO_AUTH_DB'', ''admin''), (''MONGO_TYPE'', ''standalone''),
      (''socketTimeoutMS'', ''1000''), (''connectTimeoutMS'', ''2000''),
      (''serverSelectionTimeoutMS'', ''3000'')]"

text \<open>A driver whose every call raises.\<close>

definition refusing_driver :: driver where
  "refusing_driver history c = Inl ''refused''"

text \<open>An environment in which no setting is given.\<close>

definition bare_env :: env where
  "bare_env =
     \<lparr>MONGO_URI = None, DATABASE_NAME = None, MONGO_USER = None, MONGO_PASSWORD = None,
      MONGO_AUTH_DB = None, MONGO_TYPE = None, MONGO_REPLICA_SET = None\<rparr>"

text \<open>The singleton and the world after \<open>DatabaseHandler(standalone_config)\<close> has connected
  to the empty server.\<close>

definition ready_handler :: handler where
  "ready_handler =
     \<lparr>initialized = True, config = Some standalone_config, DEFAULT_MONGO_DB = Some ''test'',
      mongo_client = Client 0\<rparr>"

definition ready_world :: world where
  "ready_world =
     \<lparr>calls =
        [NewClient (PStr ''mongodb://u:p%40ss@h/test'')
           [(''readPreference'', PStr ''secondaryPreferred''), (''w'', PStr ''majority''),
            (''retryWrites'', PBool True), (''socketTimeoutMS'', PInt 30000),
            (''connectTimeoutMS'', PInt 20000), (''serverSelectionTimeoutMS'', PInt 30000),
            (''authSource'', PStr ''admin''), (''directConnection'', PBool True)],
         Command 0 (Some ''admin'') ''ping''],
      printed =
        [''Attempting to connect to MongoDB: mongodb://u:****@h/test'',
         ''MongoDB connection successful.'']\<rparr>"

text \<open>The singleton after the constructor was refused, and the class and the world after
  \<open>connect_db\<close> has connected to the empty server.\<close>

definition refused_handler :: handler where
  "refused_handler =
     \<lparr>initialized = False, config = Some standalone_config, DEFAULT_MONGO_DB = Some ''test'',
      mongo_client = IsNone\<rparr>"

definition connected_cls :: mongodb where
  "connected_cls = \<lparr>client = Some 0, db = Some (0, Some ''test'')\<rparr>"

definition connected_world :: world where
  "connected_world =
     \<lparr>calls =
        [NewClient (PStr ''mongodb://h'')
           [(''retryWrites'', PBool True), (''w'', PStr ''majority''),
            (''serverSelectionTimeoutMS'', PInt 5000), (''directConnection'', PBool True)],
         Command 0 (Some ''test'') ''ping''],
      printed = []\<rparr>"

section \<open>Properties of the strings\<close>

lemma hexdigit_in: "hexdigit n \<in> set ''0123456789ABCDEF''"
  unfolding hexdigit_def by (rule nth_mem) simp

lemma always_safe_not:
  "\<not> always_safe (CHR ''*'')" "\<not> always_safe (CHR '' '')"
  by (simp_all add: always_safe_def)

lemma hexdigit_not:
  "hexdigit n \<noteq> CHR ''*''" "hexdigit n \<noteq> CHR '' ''"
  using hexdigit_in [of n] by auto

lemma quote_byte_no_star: "CHR ''*'' \<notin> set (quote_byte c)"
  by (auto simp: quote_byte_def always_safe_not hexdigit_not hexdigit_not [symmetric])

lemma quote_byte_no_space: "CHR '' '' \<notin> set (quote_byte c)"
  by (auto simp: quote_byte_def always_safe_not hexdigit_not hexdigit_not [symmetric])

lemma quote_plus_no_star: "CHR ''*'' \<notin> set (quote_plus p)"
  by (simp add: quote_plus_def quote_byte_no_star)

lemma quote_plus_no_space: "CHR '' '' \<notin> set (quote_plus p)"
  by (simp add: quote_plus_def quote_byte_no_space)

lemma quote_byte_nonempty: "quote_byte c \<noteq> []"
  by (simp add: quote_byte_def)

lemma quote_plus_nonempty: "p \<noteq> [] \<Longrightarrow> quote_plus p \<noteq> []"
  by (cases p) (simp_all add: quote_plus_def quote_byte_nonempty)

lemma quote_plus_unsafe:
  assumes "c \<in> set p" "\<not> always_safe c"
  shows "CHR ''+'' \<in> set (quote_plus p) \<or> CHR ''%'' \<in> set (quote_plus p)"
proof -
  have "CHR ''+'' \<in> set (quote_byte c) \<or> CHR ''%'' \<in> set (quote_byte c)"
    using assms(2) by (simp add: quote_byte_def)
  then show ?thesis
    using assms(1) unfolding quote_plus_def by auto
qed

lemma prefix_replace_scan:
  assumes "set p \<inter> set new = {}" "new \<noteq> []"
  shows "prefix p (replace_scan old new s) \<Longrightarrow> prefix p s"
  using assms
proof (induction old new s arbitrary: p rule: replace_scan.induct)
  case (1 old new s)
  show ?case
  proof (cases p)
    case Nil
    then show ?thesis by simp
  next
    case (Cons x p')
    show ?thesis
    proof (cases "s = []")
      case True
      with "1.prems"(1) Cons show ?thesis
        by (simp add: replace_scan.simps)
    next
      case ne: False
      show ?thesis
      proof (cases "old \<noteq> [] \<and> prefix old s")
        case True
        then have "replace_scan old new s = new @ replace_scan old new (drop (length old) s)"
          using ne by (subst replace_scan.simps) simp
        with "1.prems"(1) Cons "1.prems"(3) have "x = hd new"
          by (cases new) (auto simp: prefix_Cons)
        with "1.prems"(2,3) Cons show ?thesis
          by (cases new) auto
      next
        case False
        then have eq: "replace_scan old new s = hd s # replace_scan old new (tl s)"
          using ne by (subst replace_scan.simps) auto
        from "1.prems"(1) Cons eq have x: "x = hd s" and pp: "prefix p' (replace_scan old new (tl s))"
          by auto
        have "set p' \<inter> set new = {}"
          using "1.prems"(2) Cons by auto
        from "1.IH"(2) [OF ne False pp this "1.prems"(3)] have "prefix p' (tl s)" .
        with x ne Cons show ?thesis
          by (cases s) auto
      qed
    qed
  qed
qed

lemma replace_scan_no_old:
  assumes "old \<noteq> []" "set old \<inter> set new = {}" "new \<noteq> []"
  shows "\<not> sublist old (replace_scan old new s)"
  using assms
proof (induction old new s rule: replace_scan.induct)
  case (1 old new s)
  show ?case
  proof (cases "s = []")
    case True
    with "1.prems"(1) show ?thesis
      by (simp add: replace_scan.simps)
  next
    case ne: False
    show ?thesis
    proof (cases "old \<noteq> [] \<and> prefix old s")
      case True
      let ?r = "replace_scan old new (drop (length old) s)"
      have eq: "replace_scan old new s = new @ ?r"
        using ne True by (subst replace_scan.simps) simp
      have ih: "\<not> sublist old ?r"
        using "1.IH"(1) [OF ne True "1.prems"] .
      have a: "\<not> sublist old new"
        using "1.prems"(1,2) set_mono_sublist [of old new] by (cases old) auto
      have b: "\<not> (\<exists>xs1 xs2. old = xs1 @ xs2 \<and> suffix xs1 new \<and> prefix xs2 ?r)"
      proof
        assume "\<exists>xs1 xs2. old = xs1 @ xs2 \<and> suffix xs1 new \<and> prefix xs2 ?r"
        then obtain xs1 xs2 where o: "old = xs1 @ xs2" and s1: "suffix xs1 new" and p2: "prefix xs2 ?r"
          by blast
        show False
        proof (cases xs1)
          case Nil
          with o p2 ih show False by auto
        next
          case (Cons y ys)
          then have "y \<in> set old" using o by simp
          moreover have "y \<in> set new" using s1 Cons set_mono_suffix [of xs1 new] by auto
          ultimately show False using "1.prems"(2) by auto
        qed
      qed
      show ?thesis
        unfolding eq sublist_append using a b ih by blast
    next
      case False
      then have eq: "replace_scan old new s = hd s # replace_scan old new (tl s)"
        using ne by (subst replace_scan.simps) auto
      have ih: "\<not> sublist old (replace_scan old new (tl s))"
        using "1.IH"(2) [OF ne False "1.prems"] .
      have "\<not> prefix old (replace_scan old new s)"
        using prefix_replace_scan [OF "1.prems"(2,3), of old s] False "1.prems"(1) by auto
      then show ?thesis
        using ih unfolding eq sublist_Cons_right by simp
    qed
  qed
qed

section \<open>Properties of the connection parameters\<close>

lemma and_then_Inr: "and_then r f = Inr v \<longleftrightarrow> (\<exists>x. r = Inr x \<and> f x = Inr v)"
  by (cases r) (simp_all add: and_then_def)

lemma getitem_Inr: "getitem cfg k = Inr v \<longleftrightarrow> map_of cfg k = Some v"
  by (simp add: getitem_def split: option.splits)

lemma getitem_Some: "map_of cfg k = Some v \<Longrightarrow> getitem cfg k = Inr v"
  by (simp add: getitem_def)

lemma and_then_Inr_eq: "and_then (Inr x) f = f x"
  by (simp add: and_then_def)

lemma init_build_eq:
  assumes "map_of cfg ''MONGO_PASSWORD'' = Some password" "map_of cfg ''MONGO_USER'' = Some user"
    "map_of cfg ''MONGO_URI'' = Some host" "map_of cfg ''MONGO_DB'' = Some dbname"
    "map_of cfg ''MONGO_AUTH_DB'' = Some auth_db" "map_of cfg ''MONGO_TYPE'' = Some mongo_type"
  shows "init_build cfg =
     (if mongo_type = ''standalone''
        then Inr (uri_of user password host dbname, quote_plus password,
                  dict_set (base_kwargs auth_db) ''directConnection'' (PBool True))
      else if mongo_type = ''replica_set''
        then and_then (getitem cfg ''MONGO_REPLICA_SET'') (\<lambda>rs.
               Inr (uri_of user password host dbname @ ''?replicaSet='' @ rs, quote_plus password,
                    dict_set (base_kwargs auth_db) ''heartbeatFrequencyMS'' (PInt 10000)))
      else Inr (uri_of user password host dbname, quote_plus password, base_kwargs auth_db))"
  unfolding init_build_def Let_def uri_of_def
    getitem_Some [OF assms(1)] getitem_Some [OF assms(2)] getitem_Some [OF assms(3)]
    getitem_Some [OF assms(4)] getitem_Some [OF assms(5)] getitem_Some [OF assms(6)]
    and_then_Inr_eq
  by (rule refl)

lemma init_build_keys:
  assumes "init_build cfg = Inr x"
  obtains password user host dbname auth_db mongo_type where
     "map_of cfg ''MONGO_PASSWORD'' = Some password" "map_of cfg ''MONGO_USER'' = Some user"
     "map_of cfg ''MONGO_URI'' = Some host" "map_of cfg ''MONGO_DB'' = Some dbname"
     "map_of cfg ''MONGO_AUTH_DB'' = Some auth_db" "map_of cfg ''MONGO_TYPE'' = Some mongo_type"
  using assms unfolding init_build_def Let_def and_then_Inr getitem_Inr
  by (elim exE conjE)

text \<open>The three shapes of a successful build.\<close>

lemma init_build_cases:
  assumes "init_build cfg = Inr (mongo_uri, encoded_password, kw)"
  obtains
    (standalone) password user host dbname auth_db where
      "map_of cfg ''MONGO_PASSWORD'' = Some password" "map_of cfg ''MONGO_USER'' = Some user"
      "map_of cfg ''MONGO_URI'' = Some host" "map_of cfg ''MONGO_DB'' = Some dbname"
      "map_of cfg ''MONGO_AUTH_DB'' = Some auth_db" "map_of cfg ''MONGO_TYPE'' = Some ''standalone''"
      "mongo_uri = uri_of user password host dbname" "encoded_password = quote_plus password"
      "kw = dict_set (base_kwargs auth_db) ''directConnection'' (PBool True)"
  | (replica_set) password user host dbname auth_db rs where
      "map_of cfg ''MONGO_PASSWORD'' = Some password" "map_of cfg ''MONGO_USER'' = Some user"
      "map_of cfg ''MONGO_URI'' = Some host" "map_of cfg ''MONGO_DB'' = Some dbname"
      "map_of cfg ''MONGO_AUTH_DB'' = Some auth_db" "map_of cfg ''MONGO_TYPE'' = Some ''replica_set''"
      "map_of cfg ''MONGO_REPLICA_SET'' = Some rs"
      "mongo_uri = uri_of user password host dbname @ ''?replicaSet='' @ rs"
      "encoded_password = quote_plus password"
      "kw = dict_set (base_kwargs auth_db) ''heartbeatFrequencyMS'' (PInt 10000)"
  | (other) password user host dbname auth_db mongo_type where
      "map_of cfg ''MONGO_PASSWORD'' = Some password" "map_of cfg ''MONGO_USER'' = Some user"
      "map_of cfg ''MONGO_URI'' = Some host" "map_of cfg ''MONGO_DB'' = Some dbname"
      "map_of cfg ''MONGO_AUTH_DB'' = Some auth_db" "map_of cfg ''MONGO_TYPE'' = Some mongo_type"
      "mongo_type \<noteq> ''standalone''" "mongo_type \<noteq> ''replica_set''"
      "mongo_uri = uri_of user password host dbname" "encoded_password = quote_plus password"
      "kw = base_kwargs auth_db"
proof -
  from assms obtain password user host dbname auth_db mongo_type where k:
     "map_of cfg ''MONGO_PASSWORD'' = Some password" "map_of cfg ''MONGO_USER'' = Some user"
     "map_of cfg ''MONGO_URI'' = Some host" "map_of cfg ''MONGO_DB'' = Some dbname"
     "map_of cfg ''MONGO_AUTH_DB'' = Some auth_db" "map_of cfg ''MONGO_TYPE'' = Some mongo_type"
    by (rule init_build_keys)
  note eq = init_build_eq [OF k]
  show thesis
  proof (cases "mongo_type = ''standalone''")
    case True
    from assms have "mongo_uri = uri_of user password host dbname \<and> encoded_password = quote_plus password
        \<and> kw = dict_set (base_kwargs auth_db) ''directConnection'' (PBool True)"
      unfolding eq if_P [OF True] by simp
    then show thesis
      using standalone [of password user host dbname auth_db] k True by simp
  next
    case ns: False
    show thesis
    proof (cases "mongo_type = ''replica_set''")
      case True
      from assms have "and_then (getitem cfg ''MONGO_REPLICA_SET'') (\<lambda>rs.
               Inr (uri_of user password host dbname @ ''?replicaSet='' @ rs, quote_plus password,
                    dict_set (base_kwargs auth_db) ''heartbeatFrequencyMS'' (PInt 10000)))
            = Inr (mongo_uri, encoded_password, kw)"
        unfolding eq if_not_P [OF ns] if_P [OF True] .
      then obtain rs where "map_of cfg ''MONGO_REPLICA_SET'' = Some rs"
        "mongo_uri = uri_of user password host dbname @ ''?replicaSet='' @ rs"
        "encoded_password = quote_plus password"
        "kw = dict_set (base_kwargs auth_db) ''heartbeatFrequencyMS'' (PInt 10000)"
        unfolding and_then_Inr getitem_Inr by auto
      then show thesis
        using replica_set [of password user host dbname auth_db rs] k True by simp
    next
      case False
      from assms have "mongo_uri = uri_of user password host dbname \<and> encoded_password = quote_plus password
          \<and> kw = base_kwargs auth_db"
        unfolding eq if_not_P [OF ns] if_not_P [OF False] by simp
      then show thesis
        using other [of password user host dbname auth_db mongo_type] k ns False by simp
    qed
  qed
qed

section \<open>The masked connection string\<close>

lemma masked_uri_no_encoded:
  assumes "p \<noteq> []"
  shows "\<not> sublist (quote_plus p) (masked_uri u (quote_plus p))"
proof -
  have ne: "quote_plus p \<noteq> []"
    using assms by (rule quote_plus_nonempty)
  have "set (quote_plus p) \<inter> set ''****'' = {}"
    using quote_plus_no_star [of p] by auto
  then have "\<not> sublist (quote_plus p) (replace_scan (quote_plus p) ''****'' u)"
    using ne by (intro replace_scan_no_old) simp_all
  then show ?thesis
    using ne by (simp add: masked_uri_def str_replace_def)
qed

lemma attempt_prefix_chars:
  "CHR ''+'' \<notin> set ''Attempting to connect to MongoDB: ''"
  "CHR ''%'' \<notin> set ''Attempting to connect to MongoDB: ''"
  "last ''Attempting to connect to MongoDB: '' = CHR '' ''"
  by simp_all

lemma attempt_line_no_encoded:
  assumes "c \<in> set p" "\<not> always_safe c"
  shows "\<not> sublist (quote_plus p) (attempt_line u (quote_plus p))"
proof
  define e where "e = quote_plus p"
  define pre where "pre = ''Attempting to connect to MongoDB: ''"
  have ne: "p \<noteq> []" using assms(1) by auto
  have m: "\<not> sublist e (masked_uri u e)"
    unfolding e_def using ne by (rule masked_uri_no_encoded)
  assume "sublist (quote_plus p) (attempt_line u (quote_plus p))"
  then have "sublist e (pre @ masked_uri u e)"
    by (simp only: attempt_line_def e_def pre_def)
  then consider (a) "sublist e pre"
    | (c) xs1 xs2 where "e = xs1 @ xs2" "suffix xs1 pre" "prefix xs2 (masked_uri u e)"
    unfolding sublist_append using m by blast
  then show False
  proof cases
    case a
    then have "set e \<subseteq> set pre" by (rule set_mono_sublist)
    moreover have "CHR ''+'' \<in> set e \<or> CHR ''%'' \<in> set e"
      unfolding e_def using assms by (rule quote_plus_unsafe)
    ultimately show False
      using attempt_prefix_chars(1,2) unfolding pre_def by blast
  next
    case c
    show False
    proof (cases "xs1 = []")
      case True
      with c(1,3) have "sublist e (masked_uri u e)" by auto
      with m show False ..
    next
      case False
      from c(2) obtain zs where z: "pre = zs @ xs1"
        by (auto simp: suffix_def)
      have "last (zs @ xs1) = last xs1"
        using False by simp
      then have "last xs1 = last pre"
        by (simp only: z)
      then have "last xs1 = CHR '' ''"
        unfolding pre_def attempt_prefix_chars(3) .
      then have "CHR '' '' \<in> set xs1"
        using False last_in_set by metis
      then have "CHR '' '' \<in> set e"
        using c(1) by simp
      then show False
        unfolding e_def using quote_plus_no_space by blast
    qed
  qed
qed

lemma init_build_encoded:
  assumes "init_build cfg = Inr (mongo_uri, encoded_password, kw)"
    and "map_of cfg ''MONGO_PASSWORD'' = Some P"
  shows "encoded_password = quote_plus P"
  using assms(1)
proof (cases rule: init_build_cases)
  case (standalone password user host dbname auth_db)
  with assms(2) show ?thesis by simp
next
  case (replica_set password user host dbname auth_db rs)
  with assms(2) show ?thesis by simp
next
  case (other password user host dbname auth_db mongo_type)
  with assms(2) show ?thesis by simp
qed

lemma init_build_standalone:
  "init_build standalone_config =
     Inr (''mongodb://u:p%40ss@h/test'', ''p%40ss'',
          [(''readPreference'', PStr ''secondaryPreferred''), (''w'', PStr ''majority''),
           (''retryWrites'', PBool True), (''socketTimeoutMS'', PInt 30000),
           (''connectTimeoutMS'', PInt 20000), (''serverSelectionTimeoutMS'', PInt 30000),
           (''authSource'', PStr ''admin''), (''directConnection'', PBool True)])"
  by code_simp

lemma standalone_password: "map_of standalone_config ''MONGO_PASSWORD'' = Some ''p@ss''"
  by code_simp

lemma at_sign_unsafe: "CHR ''@'' \<in> set ''p@ss''" "\<not> always_safe (CHR ''@'')"
  by (simp_all add: always_safe_def)

text \<open>
  C3 (amended). For every password \<open>P\<close> that holds a character \<open>quote_plus\<close> changes, and
  every value of the other settings, neither the masked connection string nor the line
  printed on the connection attempt contains the percent-encoded form of \<open>P\<close>. Nothing is
  said of \<open>P\<close> itself: only the encoded form is replaced.
\<close>

theorem masked_line_hides_encoded_password:
  assumes "init_build cfg = Inr (mongo_uri, encoded_password, kw)"
    and "map_of cfg ''MONGO_PASSWORD'' = Some P"
    and "c \<in> set P" and "\<not> always_safe c"
  shows "encoded_password = quote_plus P
     \<and> \<not> sublist (quote_plus P) (masked_uri mongo_uri encoded_password)
     \<and> \<not> sublist (quote_plus P) (attempt_line mongo_uri encoded_password)"
proof -
  have e: "encoded_password = quote_plus P"
    using assms(1,2) by (rule init_build_encoded)
  have ne: "P \<noteq> []" using assms(3) by auto
  show ?thesis
    unfolding e using masked_uri_no_encoded [OF ne] attempt_line_no_encoded [OF assms(3,4)]
    by simp
qed

theorem masked_line_hides_encoded_password_witness:
  "map_of standalone_config ''MONGO_PASSWORD'' = Some ''p@ss''
   \<and> CHR ''@'' \<in> set ''p@ss'' \<and> \<not> always_safe (CHR ''@'')
   \<and> \<not> sublist (quote_plus ''p@ss'') (masked_uri ''mongodb://u:p%40ss@h/test'' ''p%40ss'')
   \<and> \<not> sublist (quote_plus ''p@ss'') (attempt_line ''mongodb://u:p%40ss@h/test'' ''p%40ss'')"
  using masked_line_hides_encoded_password
    [OF init_build_standalone standalone_password at_sign_unsafe]
    standalone_password at_sign_unsafe
  by blast

lemma run_reused:
  "printed (snd (snd (init empty_server reused_config blank start))) =
     [''Attempting to connect to MongoDB: mongodb://p@ss:****@h/test'',
      ''MongoDB connection successful.'']"
  by code_simp

lemma reused_password: "map_of reused_config ''MONGO_PASSWORD'' = Some ''p@ss''"
  by code_simp

lemma reused_line_shows:
  "sublist ''p@ss'' ''Attempting to connect to MongoDB: mongodb://p@ss:****@h/test''"
  by code_simp

text \<open>
  C3 as stated fails: when the user name equals the password \<open>p@ss\<close>, the line printed on
  the connection attempt contains the password.
\<close>

theorem masked_line_shows_password_counterexample:
  "map_of reused_config ''MONGO_PASSWORD'' = Some ''p@ss''
   \<and> \<not> always_safe (CHR ''@'')
   \<and> printed (snd (snd (init empty_server reused_config blank start))) =
       [''Attempting to connect to MongoDB: mongodb://p@ss:****@h/test'',
        ''MongoDB connection successful.'']
   \<and> sublist ''p@ss'' ''Attempting to connect to MongoDB: mongodb://p@ss:****@h/test''"
  using reused_password at_sign_unsafe(2) run_reused reused_line_shows
  by (intro conjI)

section \<open>Topology and fixed parameters\<close>

lemma map_of_dict_set: "map_of (dict_set d k v) = (map_of d)(k \<mapsto> v)"
  by (simp add: dict_set_def update_conv')

lemma base_kwargs_fixed:
  "map_of (base_kwargs a) ''w'' = Some (PStr ''majority'')"
  "map_of (base_kwargs a) ''retryWrites'' = Some (PBool True)"
  "map_of (base_kwargs a) ''socketTimeoutMS'' = Some (PInt 30000)"
  "map_of (base_kwargs a) ''connectTimeoutMS'' = Some (PInt 20000)"
  "map_of (base_kwargs a) ''serverSelectionTimeoutMS'' = Some (PInt 30000)"
  by (simp_all add: base_kwargs_def)

lemma base_kwargs_absent:
  "map_of (base_kwargs a) ''directConnection'' = None"
  "map_of (base_kwargs a) ''replicaSet'' = None"
  "map_of (base_kwargs a) ''heartbeatFrequencyMS'' = None"
  by (simp_all add: base_kwargs_def)

lemma init_build_fixed:
  assumes "init_build cfg = Inr (mongo_uri, encoded_password, kw)"
  shows "map_of kw ''w'' = Some (PStr ''majority'') \<and> map_of kw ''retryWrites'' = Some (PBool True)
     \<and> map_of kw ''socketTimeoutMS'' = Some (PInt 30000)
     \<and> map_of kw ''connectTimeoutMS'' = Some (PInt 20000)
     \<and> map_of kw ''serverSelectionTimeoutMS'' = Some (PInt 30000)"
  using assms
proof (cases rule: init_build_cases)
  case (standalone password user host dbname auth_db)
  show ?thesis
    unfolding standalone(9) map_of_dict_set by (simp add: base_kwargs_fixed)
next
  case (replica_set password user host dbname auth_db rs)
  show ?thesis
    unfolding replica_set(10) map_of_dict_set by (simp add: base_kwargs_fixed)
next
  case (other password user host dbname auth_db mongo_type)
  show ?thesis
    unfolding other(11) by (simp add: base_kwargs_fixed)
qed

lemma init_build_standalone_flags:
  assumes "init_build cfg = Inr (mongo_uri, encoded_password, kw)"
    and "map_of cfg ''MONGO_TYPE'' = Some ''standalone''"
  shows "map_of kw ''directConnection'' = Some (PBool True) \<and> map_of kw ''replicaSet'' = None
     \<and> map_of kw ''heartbeatFrequencyMS'' = None
     \<and> (\<exists>user password host dbname.
          map_of cfg ''MONGO_USER'' = Some user \<and> map_of cfg ''MONGO_PASSWORD'' = Some password \<and>
          map_of cfg ''MONGO_URI'' = Some host \<and> map_of cfg ''MONGO_DB'' = Some dbname \<and>
          mongo_uri = uri_of user password host dbname)"
  using assms(1)
proof (cases rule: init_build_cases)
  case (standalone password user host dbname auth_db)
  have "map_of kw ''directConnection'' = Some (PBool True) \<and> map_of kw ''replicaSet'' = None
     \<and> map_of kw ''heartbeatFrequencyMS'' = None"
    unfolding standalone(9) map_of_dict_set by (simp add: base_kwargs_absent)
  then show ?thesis
    using standalone(1-4,7) by blast
next
  case (replica_set password user host dbname auth_db rs)
  with assms(2) show ?thesis by simp
next
  case (other password user host dbname auth_db mongo_type)
  with assms(2) show ?thesis by simp
qed

lemma init_build_replica_flags:
  assumes "init_build cfg = Inr (mongo_uri, encoded_password, kw)"
    and "map_of cfg ''MONGO_TYPE'' = Some ''replica_set''"
  shows "map_of kw ''heartbeatFrequencyMS'' = Some (PInt 10000) \<and> map_of kw ''directConnection'' = None
     \<and> (\<exists>user password host dbname rs.
          map_of cfg ''MONGO_USER'' = Some user \<and> map_of cfg ''MONGO_PASSWORD'' = Some password \<and>
          map_of cfg ''MONGO_URI'' = Some host \<and> map_of cfg ''MONGO_DB'' = Some dbname \<and>
          map_of cfg ''MONGO_REPLICA_SET'' = Some rs \<and>
          mongo_uri = uri_of user password host dbname @ ''?replicaSet='' @ rs)"
  using assms(1)
proof (cases rule: init_build_cases)
  case (standalone password user host dbname auth_db)
  with assms(2) show ?thesis by simp
next
  case (replica_set password user host dbname auth_db rs)
  have "map_of kw ''heartbeatFrequencyMS'' = Some (PInt 10000) \<and> map_of kw ''directConnection'' = None"
    unfolding replica_set(10) map_of_dict_set by (simp add: base_kwargs_absent)
  then show ?thesis
    using replica_set(1-4,7,8) by blast
next
  case (other password user host dbname auth_db mongo_type)
  with assms(2) show ?thesis by simp
qed

lemma connect_kwargs_fixed:
  "map_of (connect_kwargs e) ''w'' = Some (PStr ''majority'')"
  "map_of (connect_kwargs e) ''retryWrites'' = Some (PBool True)"
  "map_of (connect_kwargs e) ''serverSelectionTimeoutMS'' = Some (PInt 5000)"
  "map_of (connect_kwargs e) ''socketTimeoutMS'' = None"
  "map_of (connect_kwargs e) ''connectTimeoutMS'' = None"
  "map_of (connect_kwargs e) ''heartbeatFrequencyMS'' = None"
  by (simp_all add: connect_kwargs_def Let_def map_of_dict_set)

lemma connect_kwargs_standalone:
  assumes "MONGO_TYPE e = Some ''standalone''"
  shows "map_of (connect_kwargs e) ''directConnection'' = Some (PBool True)"
    "map_of (connect_kwargs e) ''replicaSet'' = None"
  using assms by (simp_all add: connect_kwargs_def Let_def map_of_dict_set)

lemma connect_kwargs_replica:
  assumes "MONGO_TYPE e = Some ''replica_set''"
  shows "map_of (connect_kwargs e) ''replicaSet'' = Some (opt_val (MONGO_REPLICA_SET e))"
    "map_of (connect_kwargs e) ''directConnection'' = None"
  using assms by (simp_all add: connect_kwargs_def Let_def map_of_dict_set)

lemma connect_kwargs_other:
  assumes "MONGO_TYPE e \<noteq> Some ''standalone''" "MONGO_TYPE e \<noteq> Some ''replica_set''"
  shows "map_of (connect_kwargs e) ''replicaSet'' = None"
    "map_of (connect_kwargs e) ''directConnection'' = None"
  using assms by (simp_all add: connect_kwargs_def Let_def map_of_dict_set)

section \<open>The claims about the connection parameters\<close>

lemma init_build_replica:
  "init_build replica_config =
     Inr (''mongodb://u:p%40ss@h/test?replicaSet=rs0'', ''p%40ss'',
          [(''readPreference'', PStr ''secondaryPreferred''), (''w'', PStr ''majority''),
           (''retryWrites'', PBool True), (''socketTimeoutMS'', PInt 30000),
           (''connectTimeoutMS'', PInt 20000), (''serverSelectionTimeoutMS'', PInt 30000),
           (''authSource'', PStr ''admin''), (''heartbeatFrequencyMS'', PInt 10000)])"
  by code_simp

lemma init_build_timeout:
  "init_build timeout_config =
     Inr (''mongodb://u:p%40ss@h/test'', ''p%40ss'',
          [(''readPreference'', PStr ''secondaryPreferred''), (''w'', PStr ''majority''),
           (''retryWrites'', PBool True), (''socketTimeoutMS'', PInt 30000),
           (''connectTimeoutMS'', PInt 20000), (''serverSelectionTimeoutMS'', PInt 30000),
           (''authSource'', PStr ''admin''), (''directConnection'', PBool True)])"
  by code_simp

lemma config_types:
  "map_of standalone_config ''MONGO_TYPE'' = Some ''standalone''"
  "map_of replica_config ''MONGO_TYPE'' = Some ''replica_set''"
  by code_simp+

lemma env_types:
  "MONGO_TYPE standalone_env = Some ''standalone''"
  "MONGO_TYPE replica_env = Some ''replica_set''"
  by (simp_all add: standalone_env_def replica_env_def)

lemma connect_kwargs_replica_env:
  "connect_kwargs replica_env =
     [(''retryWrites'', PBool True), (''w'', PStr ''majority''),
      (''serverSelectionTimeoutMS'', PInt 5000), (''replicaSet'', PStr ''rs0'')]"
  by code_simp

lemma timeout_config_values:
  "map_of timeout_config ''socketTimeoutMS'' = Some ''1000''"
  "map_of timeout_config ''connectTimeoutMS'' = Some ''2000''"
  "map_of timeout_config ''serverSelectionTimeoutMS'' = Some ''3000''"
  by code_simp+

text \<open>
  C4 (amended). With topology \<open>standalone\<close> both connectors set the direct-connection flag
  and no replica-set field: the synchronous connection string is the plain one and neither
  bundle has a \<open>replicaSet\<close> entry. With topology \<open>replica_set\<close> both name the configured
  replica set (the synchronous one in the connection string, the asynchronous one as the
  \<open>replicaSet\<close> parameter) and neither sets the direct-connection flag; the synchronous
  connector adds a heartbeat interval of 10000 ms, the asynchronous one sets none.
\<close>

theorem topology_parameters:
  "(init_build cfg = Inr (mongo_uri, encoded_password, kw) \<longrightarrow>
      map_of cfg ''MONGO_TYPE'' = Some ''standalone'' \<longrightarrow>
        map_of kw ''directConnection'' = Some (PBool True) \<and> map_of kw ''replicaSet'' = None
        \<and> map_of kw ''heartbeatFrequencyMS'' = None
        \<and> (\<exists>user password host dbname.
             map_of cfg ''MONGO_USER'' = Some user \<and> map_of cfg ''MONGO_PASSWORD'' = Some password \<and>
             map_of cfg ''MONGO_URI'' = Some host \<and> map_of cfg ''MONGO_DB'' = Some dbname \<and>
             mongo_uri = uri_of user password host dbname))
   \<and> (init_build cfg = Inr (mongo_uri, encoded_password, kw) \<longrightarrow>
      map_of cfg ''MONGO_TYPE'' = Some ''replica_set'' \<longrightarrow>
        map_of kw ''heartbeatFrequencyMS'' = Some (PInt 10000) \<and> map_of kw ''directConnection'' = None
        \<and> (\<exists>user password host dbname rs.
             map_of cfg ''MONGO_USER'' = Some user \<and> map_of cfg ''MONGO_PASSWORD'' = Some password \<and>
             map_of cfg ''MONGO_URI'' = Some host \<and> map_of cfg ''MONGO_DB'' = Some dbname \<and>
             map_of cfg ''MONGO_REPLICA_SET'' = Some rs \<and>
             mongo_uri = uri_of user password host dbname @ ''?replicaSet='' @ rs))
   \<and> (MONGO_TYPE e = Some ''standalone'' \<longrightarrow>
        map_of (connect_kwargs e) ''directConnection'' = Some (PBool True)
        \<and> map_of (connect_kwargs e) ''replicaSet'' = None)
   \<and> (MONGO_TYPE e = Some ''replica_set'' \<longrightarrow>
        map_of (connect_kwargs e) ''replicaSet'' = Some (opt_val (MONGO_REPLICA_SET e))
        \<and> map_of (connect_kwargs e) ''directConnection'' = None
        \<and> map_of (connect_kwargs e) ''heartbeatFrequencyMS'' = None)"
  using init_build_standalone_flags [of cfg mongo_uri encoded_password kw]
    init_build_replica_flags [of cfg mongo_uri encoded_password kw]
    connect_kwargs_standalone [of e] connect_kwargs_replica [of e] connect_kwargs_fixed(6) [of e]
  by blast

theorem topology_parameters_witness:
  "init_build standalone_config =
     Inr (''mongodb://u:p%40ss@h/test'', ''p%40ss'',
          [(''readPreference'', PStr ''secondaryPreferred''), (''w'', PStr ''majority''),
           (''retryWrites'', PBool True), (''socketTimeoutMS'', PInt 30000),
           (''connectTimeoutMS'', PInt 20000), (''serverSelectionTimeoutMS'', PInt 30000),
           (''authSource'', PStr ''admin''), (''directConnection'', PBool True)])
   \<and> map_of standalone_config ''MONGO_TYPE'' = Some ''standalone''
   \<and> init_build replica_config =
     Inr (''mongodb://u:p%40ss@h/test?replicaSet=rs0'', ''p%40ss'',
          [(''readPreference'', PStr ''secondaryPreferred''), (''w'', PStr ''majority''),
           (''retryWrites'', PBool True), (''socketTimeoutMS'', PInt 30000),
           (''connectTimeoutMS'', PInt 20000), (''serverSelectionTimeoutMS'', PInt 30000),
           (''authSource'', PStr ''admin''), (''heartbeatFrequencyMS'', PInt 10000)])
   \<and> map_of replica_config ''MONGO_TYPE'' = Some ''replica_set''
   \<and> MONGO_TYPE standalone_env = Some ''standalone''
   \<and> MONGO_TYPE replica_env = Some ''replica_set''
   \<and> map_of (connect_kwargs standalone_env) ''directConnection'' = Some (PBool True)
   \<and> map_of (connect_kwargs standalone_env) ''replicaSet'' = None
   \<and> map_of (connect_kwargs replica_env) ''replicaSet'' = Some (opt_val (MONGO_REPLICA_SET replica_env))
   \<and> map_of (connect_kwargs replica_env) ''directConnection'' = None
   \<and> map_of (connect_kwargs replica_env) ''heartbeatFrequencyMS'' = None"
  using topology_parameters [of standalone_config _ _ _ standalone_env]
    topology_parameters [of replica_config _ _ _ replica_env]
    init_build_standalone init_build_replica config_types env_types
  by blast

text \<open>
  C4 as stated fails: with topology \<open>replica_set\<close> the asynchronous connector's parameters
  hold no heartbeat interval.
\<close>

theorem async_replica_set_no_heartbeat_counterexample:
  "MONGO_TYPE replica_env = Some ''replica_set''
   \<and> connect_kwargs replica_env =
       [(''retryWrites'', PBool True), (''w'', PStr ''majority''),
        (''serverSelectionTimeoutMS'', PInt 5000), (''replicaSet'', PStr ''rs0'')]
   \<and> map_of (connect_kwargs replica_env) ''heartbeatFrequencyMS'' = None"
  using env_types(2) connect_kwargs_replica_env connect_kwargs_fixed(6) [of replica_env]
  by (intro conjI)

text \<open>
  C6 (amended). Every parameter bundle holds write concern \<open>majority\<close> and retry-writes
  enabled. The timeouts are constants of the code and do not depend on the configuration:
  the synchronous bundle holds socket 30000, connect 20000 and server-selection 30000 ms,
  the asynchronous one server-selection 5000 ms and no socket or connect timeout.
\<close>

theorem fixed_parameters:
  "(init_build cfg = Inr (mongo_uri, encoded_password, kw) \<longrightarrow>
      map_of kw ''w'' = Some (PStr ''majority'') \<and> map_of kw ''retryWrites'' = Some (PBool True)
      \<and> map_of kw ''socketTimeoutMS'' = Some (PInt 30000)
      \<and> map_of kw ''connectTimeoutMS'' = Some (PInt 20000)
      \<and> map_of kw ''serverSelectionTimeoutMS'' = Some (PInt 30000))
   \<and> map_of (connect_kwargs e) ''w'' = Some (PStr ''majority'')
   \<and> map_of (connect_kwargs e) ''retryWrites'' = Some (PBool True)
   \<and> map_of (connect_kwargs e) ''serverSelectionTimeoutMS'' = Some (PInt 5000)
   \<and> map_of (connect_kwargs e) ''socketTimeoutMS'' = None
   \<and> map_of (connect_kwargs e) ''connectTimeoutMS'' = None"
  using init_build_fixed [of cfg mongo_uri encoded_password kw] connect_kwargs_fixed(1-5) [of e]
  by blast

theorem fixed_parameters_witness:
  "init_build timeout_config =
     Inr (''mongodb://u:p%40ss@h/test'', ''p%40ss'',
          [(''readPreference'', PStr ''secondaryPreferred''), (''w'', PStr ''majority''),
           (''retryWrites'', PBool True), (''socketTimeoutMS'', PInt 30000),
           (''connectTimeoutMS'', PInt 20000), (''serverSelectionTimeoutMS'', PInt 30000),
           (''authSource'', PStr ''admin''), (''directConnection'', PBool True)])
   \<and> map_of (connect_kwargs standalone_env) ''w'' = Some (PStr ''majority'')
   \<and> map_of (connect_kwargs standalone_env) ''serverSelectionTimeoutMS'' = Some (PInt 5000)
   \<and> map_of (connect_kwargs standalone_env) ''socketTimeoutMS'' = None"
  using fixed_parameters [of timeout_config _ _ _ standalone_env] init_build_timeout
  by blast

text \<open>
  C6 as stated fails: settings that supply timeouts of 1000, 2000 and 3000 ms get the
  bundle with 30000, 20000 and 30000 ms.
\<close>

theorem timeouts_not_from_config_counterexample:
  "map_of timeout_config ''socketTimeoutMS'' = Some ''1000''
   \<and> map_of timeout_config ''connectTimeoutMS'' = Some ''2000''
   \<and> map_of timeout_config ''serverSelectionTimeoutMS'' = Some ''3000''
   \<and> init_build timeout_config =
     Inr (''mongodb://u:p%40ss@h/test'', ''p%40ss'',
          [(''readPreference'', PStr ''secondaryPreferred''), (''w'', PStr ''majority''),
           (''retryWrites'', PBool True), (''socketTimeoutMS'', PInt 30000),
           (''connectTimeoutMS'', PInt 20000), (''serverSelectionTimeoutMS'', PInt 30000),
           (''authSource'', PStr ''admin''), (''directConnection'', PBool True)])"
  using timeout_config_values init_build_timeout
  by (intro conjI)

section \<open>Incomplete and unrecognised settings\<close>

lemma and_then_Inl: "and_then r f = Inl e \<longleftrightarrow> r = Inl e \<or> (\<exists>x. r = Inr x \<and> f x = Inl e)"
  by (cases r) (simp_all add: and_then_def)

lemma getitem_Inl: "getitem cfg k = Inl e \<longleftrightarrow> map_of cfg k = None \<and> e = KeyError k"
  by (auto simp: getitem_def split: option.splits)

lemma init_build_Inl:
  assumes "init_build cfg = Inl e"
  shows "\<exists>k. e = KeyError k"
  using assms unfolding init_build_def Let_def and_then_Inl getitem_Inl
  by (auto simp: and_then_Inl getitem_Inl split: if_splits)

lemma init_build_missing:
  assumes "map_of cfg ''MONGO_TYPE'' = None \<or> map_of cfg ''MONGO_URI'' = None"
  shows "\<exists>k. init_build cfg = Inl (KeyError k)"
proof (cases "init_build cfg")
  case (Inl e)
  then show ?thesis using init_build_Inl by blast
next
  case (Inr x)
  then show ?thesis
    using assms by (elim init_build_keys) auto
qed

lemma init_build_fails:
  assumes "\<not> initialized self" "init_build cfg = Inl (KeyError k)"
  shows "(fst (init drv cfg self w) = Inl (KeyError ''MONGO_DB'')
          \<or> fst (init drv cfg self w) = Inl (ConnectionError (KeyError k)))
     \<and> snd (snd (init drv cfg self w)) = w"
  using assms by (simp add: init_def Let_def getitem_def split: option.splits)

lemma connect_db_constructs:
  "\<exists>rest. calls (snd (snd (connect_db drv e cls w)))
      = calls w @ NewClient (opt_val (MONGO_URI e)) (connect_kwargs e) # rest"
  by (simp add: connect_db_def invoke_def Let_def split: sum.splits option.splits prod.splits)

lemma init_build_other:
  assumes "map_of cfg ''MONGO_PASSWORD'' = Some password" "map_of cfg ''MONGO_USER'' = Some user"
    "map_of cfg ''MONGO_URI'' = Some host" "map_of cfg ''MONGO_DB'' = Some dbname"
    "map_of cfg ''MONGO_AUTH_DB'' = Some auth_db" "map_of cfg ''MONGO_TYPE'' = Some mongo_type"
    "mongo_type \<noteq> ''standalone''" "mongo_type \<noteq> ''replica_set''"
  shows "init_build cfg = Inr (uri_of user password host dbname, quote_plus password, base_kwargs auth_db)"
  unfolding init_build_eq [OF assms(1-6)] if_not_P [OF assms(7)] if_not_P [OF assms(8)]
  by (rule refl)

lemma sharded_settings:
  "map_of sharded_config ''MONGO_PASSWORD'' = Some ''p@ss''"
  "map_of sharded_config ''MONGO_USER'' = Some ''u''"
  "map_of sharded_config ''MONGO_URI'' = Some ''h''"
  "map_of sharded_config ''MONGO_DB'' = Some ''test''"
  "map_of sharded_config ''MONGO_AUTH_DB'' = Some ''admin''"
  "map_of sharded_config ''MONGO_TYPE'' = Some ''sharded''"
  "''sharded'' \<noteq> ''standalone''" "''sharded'' \<noteq> ''replica_set''"
  by code_simp+

lemma run_sharded:
  "fst (init empty_server sharded_config blank start) = Inr ()"
  "calls (snd (snd (init empty_server sharded_config blank start))) =
     [NewClient (PStr ''mongodb://u:p%40ss@h/test'')
        [(''readPreference'', PStr ''secondaryPreferred''), (''w'', PStr ''majority''),
         (''retryWrites'', PBool True), (''socketTimeoutMS'', PInt 30000),
         (''connectTimeoutMS'', PInt 20000), (''serverSelectionTimeoutMS'', PInt 30000),
         (''authSource'', PStr ''admin'')],
      Command 0 (Some ''admin'') ''ping'']"
  by code_simp+

lemma no_type_settings:
  "\<not> initialized blank" "map_of no_type_config ''MONGO_TYPE'' = None"
  by code_simp+

lemma run_no_type:
  "fst (init empty_server no_type_config blank start) = Inl (ConnectionError (KeyError ''MONGO_TYPE''))"
  by code_simp

lemma bare_env_type:
  "MONGO_TYPE bare_env \<noteq> Some ''standalone''" "MONGO_TYPE bare_env \<noteq> Some ''replica_set''"
  by (simp_all add: bare_env_def)

text \<open>
  C5 (amended). There is no configuration error of its own. In the synchronous connector a
  \<open>config\<close> without the \<open>MONGO_TYPE\<close> or the \<open>MONGO_URI\<close> key makes the connect fail before
  any driver call and before anything is printed, with a \<open>ConnectionError\<close> that wraps the
  \<open>KeyError\<close> (or with the bare \<open>KeyError\<close> of \<open>MONGO_DB\<close>, read first). A topology value
  that is present but neither \<open>standalone\<close> nor \<open>replica_set\<close> is accepted: the build
  succeeds with the plain connection string and the basic parameters. The asynchronous
  connector checks no setting: \<open>connect_db\<close> always starts by constructing the client, and
  with an unrecognised or absent topology it passes neither topology parameter.
\<close>

theorem configuration_errors:
  "(\<not> initialized self \<longrightarrow>
      (map_of cfg ''MONGO_TYPE'' = None \<or> map_of cfg ''MONGO_URI'' = None) \<longrightarrow>
        (\<exists>k. fst (init drv cfg self w) = Inl (KeyError ''MONGO_DB'')
            \<or> fst (init drv cfg self w) = Inl (ConnectionError (KeyError k)))
        \<and> snd (snd (init drv cfg self w)) = w)
   \<and> (map_of cfg' ''MONGO_PASSWORD'' = Some password \<longrightarrow> map_of cfg' ''MONGO_USER'' = Some user \<longrightarrow>
      map_of cfg' ''MONGO_URI'' = Some host \<longrightarrow> map_of cfg' ''MONGO_DB'' = Some dbname \<longrightarrow>
      map_of cfg' ''MONGO_AUTH_DB'' = Some auth_db \<longrightarrow> map_of cfg' ''MONGO_TYPE'' = Some mongo_type \<longrightarrow>
      mongo_type \<noteq> ''standalone'' \<longrightarrow> mongo_type \<noteq> ''replica_set'' \<longrightarrow>
        init_build cfg' = Inr (uri_of user password host dbname, quote_plus password, base_kwargs auth_db))
   \<and> (\<exists>rest. calls (snd (snd (connect_db drv' e cls w')))
          = calls w' @ NewClient (opt_val (MONGO_URI e)) (connect_kwargs e) # rest)
   \<and> (MONGO_TYPE e \<noteq> Some ''standalone'' \<longrightarrow> MONGO_TYPE e \<noteq> Some ''replica_set'' \<longrightarrow>
        map_of (connect_kwargs e) ''replicaSet'' = None
        \<and> map_of (connect_kwargs e) ''directConnection'' = None)"
proof (intro conjI impI)
  assume a: "\<not> initialized self" "map_of cfg ''MONGO_TYPE'' = None \<or> map_of cfg ''MONGO_URI'' = None"
  from init_build_missing [OF a(2)] obtain k where k: "init_build cfg = Inl (KeyError k)" ..
  from init_build_fails [OF a(1) k, of drv w]
  show "\<exists>k. fst (init drv cfg self w) = Inl (KeyError ''MONGO_DB'')
            \<or> fst (init drv cfg self w) = Inl (ConnectionError (KeyError k))"
    and "snd (snd (init drv cfg self w)) = w"
    by blast+
next
  assume "map_of cfg' ''MONGO_PASSWORD'' = Some password" "map_of cfg' ''MONGO_USER'' = Some user"
    "map_of cfg' ''MONGO_URI'' = Some host" "map_of cfg' ''MONGO_DB'' = Some dbname"
    "map_of cfg' ''MONGO_AUTH_DB'' = Some auth_db" "map_of cfg' ''MONGO_TYPE'' = Some mongo_type"
    "mongo_type \<noteq> ''standalone''" "mongo_type \<noteq> ''replica_set''"
  then show "init_build cfg' = Inr (uri_of user password host dbname, quote_plus password, base_kwargs auth_db)"
    by (rule init_build_other)
next
  show "\<exists>rest. calls (snd (snd (connect_db drv' e cls w')))
          = calls w' @ NewClient (opt_val (MONGO_URI e)) (connect_kwargs e) # rest"
    by (rule connect_db_constructs)
next
  assume "MONGO_TYPE e \<noteq> Some ''standalone''" "MONGO_TYPE e \<noteq> Some ''replica_set''"
  then show "map_of (connect_kwargs e) ''replicaSet'' = None"
    and "map_of (connect_kwargs e) ''directConnection'' = None"
    by (rule connect_kwargs_other)+
qed

theorem configuration_errors_witness:
  "\<not> initialized blank \<and> map_of no_type_config ''MONGO_TYPE'' = None
   \<and> fst (init empty_server no_type_config blank start) = Inl (ConnectionError (KeyError ''MONGO_TYPE''))
   \<and> snd (snd (init empty_server no_type_config blank start)) = start
   \<and> map_of sharded_config ''MONGO_TYPE'' = Some ''sharded''
   \<and> init_build sharded_config = Inr (uri_of ''u'' ''p@ss'' ''h'' ''test'', quote_plus ''p@ss'', base_kwargs ''admin'')
   \<and> MONGO_TYPE bare_env \<noteq> Some ''standalone'' \<and> MONGO_TYPE bare_env \<noteq> Some ''replica_set''
   \<and> map_of (connect_kwargs bare_env) ''replicaSet'' = None
   \<and> map_of (connect_kwargs bare_env) ''directConnection'' = None"
  using configuration_errors [where self = blank and cfg = no_type_config and drv = empty_server
      and w = start and cfg' = sharded_config and password = "''p@ss''" and user = "''u''"
      and host = "''h''" and dbname = "''test''" and auth_db = "''admin''"
      and mongo_type = "''sharded''" and e = bare_env]
    no_type_settings run_no_type sharded_settings bare_env_type
  by blast

text \<open>
  C5 as stated fails: with the topology value \<open>sharded\<close> the connect raises nothing; the
  client is constructed and pinged.
\<close>

theorem unrecognised_topology_accepted_counterexample:
  "map_of sharded_config ''MONGO_TYPE'' = Some ''sharded''
   \<and> fst (init empty_server sharded_config blank start) = Inr ()
   \<and> calls (snd (snd (init empty_server sharded_config blank start))) =
     [NewClient (PStr ''mongodb://u:p%40ss@h/test'')
        [(''readPreference'', PStr ''secondaryPreferred''), (''w'', PStr ''majority''),
         (''retryWrites'', PBool True), (''socketTimeoutMS'', PInt 30000),
         (''connectTimeoutMS'', PInt 20000), (''serverSelectionTimeoutMS'', PInt 30000),
         (''authSource'', PStr ''admin'')],
      Command 0 (Some ''admin'') ''ping'']"
  using sharded_settings(6) run_sharded
  by (intro conjI)

section \<open>The operations\<close>

lemma run_standalone:
  "init empty_server standalone_config blank start = (Inr (), ready_handler, ready_world)"
  by code_simp

text \<open>Without a client, resolution fails and no operation reaches the driver.\<close>

lemma no_client_resolution:
  "mongo_client self = IsNone \<Longrightarrow> get_mongo_collection self d c = Inl TypeError"
  "mongo_client self = Unset \<Longrightarrow> get_mongo_collection self d c = Inl AttributeError"
  "mongo_client self = IsNone \<Longrightarrow> get_mongo_db self n = Inl TypeError"
  "mongo_client self = Unset \<Longrightarrow> get_mongo_db self n = Inl AttributeError"
  by (simp_all add: get_mongo_collection_def get_mongo_db_def)

lemma unresolved_operations:
  assumes "get_mongo_collection self d c = Inl err"
  shows "mongo_insert drv self d c document w = (Inl err, w)"
    "mongo_find drv self d c query hint sort' projection w = (Inl err, w)"
    "mongo_update drv self d c query upd w = (Inl err, w)"
    "mongo_update_one drv self d c query upd upsert kw w = (Inl err, w)"
    "mongo_delete drv self d c query w = (Inl err, w)"
    "mongo_insert_many drv self d c documents w = (Inl err, w)"
    "mongo_aggregate drv self d c pipeline w = (Inl err, w)"
    "get_distinct_values drv self d c field w = (Inl err, w)"
    "mongo_find_one drv self d c query hint projection sort' w = (Inl err, w)"
  using assms
  by (simp_all add: mongo_insert_def mongo_find_def mongo_update_def mongo_update_one_def
      mongo_delete_def mongo_insert_many_def mongo_aggregate_def get_distinct_values_def
      mongo_find_one_def)

lemma get_collection_unconnected:
  "db cls = None \<Longrightarrow>
     get_collection cls name = Inl (PyException ''Database not connected. Call connect_db() first.'')"
  by (simp add: get_collection_def)

lemma run_refused:
  "fst (init refusing_driver standalone_config blank start) = Inl (ConnectionError (DriverError ''refused''))"
  "fst (snd (init refusing_driver standalone_config blank start)) = refused_handler"
  by code_simp+

lemma run_async:
  "connect_db empty_server standalone_env unconnected start = (Inr (0, Some ''test''), connected_cls, connected_world)"
  by code_simp

lemma refused_no_client: "mongo_client refused_handler = IsNone"
  by (simp add: refused_handler_def)

lemma unconnected_no_db: "db unconnected = None"
  by (simp add: unconnected_def)

lemma run_close:
  "close_db empty_server connected_cls connected_world =
     (connected_cls, connected_world\<lparr>calls := calls connected_world @ [Close 0]\<rparr>)"
  by (simp add: close_db_def connected_cls_def invoke_def)

lemma closed_collection:
  "get_collection connected_cls ''c'' = Inr ((0, Some ''test''), ''c'')"
  by (simp add: get_collection_def connected_cls_def)

text \<open>
  C2 (amended). While the connector holds no handle, every operation fails and makes no
  driver call. In the synchronous facade that is the state in which \<open>mongo_client\<close> is
  \<open>None\<close> (after a connect attempt that failed before a client was constructed) or was
  never set: collection and database resolution fail with the \<open>TypeError\<close> or
  \<open>AttributeError\<close> of the failed lookup, and every operation fails with the same error
  and leaves the world as it was. In the asynchronous connector \<open>get_collection\<close> fails
  with \<open>Database not connected\<close> whenever no database handle is recorded, as before any
  \<open>connect_db\<close>. Nothing is said of the states in which a closed handle is still recorded.
\<close>

theorem operations_without_handle_fail:
  "(get_mongo_collection self d c = Inl err \<longrightarrow>
      mongo_insert drv self d c document w = (Inl err, w)
      \<and> mongo_find drv self d c query hint sort' projection w = (Inl err, w)
      \<and> mongo_update drv self d c query upd w = (Inl err, w)
      \<and> mongo_update_one drv self d c query upd upsert kw w = (Inl err, w)
      \<and> mongo_delete drv self d c query w = (Inl err, w)
      \<and> mongo_insert_many drv self d c documents w = (Inl err, w)
      \<and> mongo_aggregate drv self d c pipeline w = (Inl err, w)
      \<and> get_distinct_values drv self d c field w = (Inl err, w)
      \<and> mongo_find_one drv self d c query hint projection sort' w = (Inl err, w))
   \<and> (mongo_client self = IsNone \<longrightarrow>
        get_mongo_collection self d c = Inl TypeError \<and> get_mongo_db self n = Inl TypeError)
   \<and> (mongo_client self = Unset \<longrightarrow>
        get_mongo_collection self d c = Inl AttributeError \<and> get_mongo_db self n = Inl AttributeError)
   \<and> (db cls = None \<longrightarrow>
        get_collection cls name = Inl (PyException ''Database not connected. Call connect_db() first.''))"
  by (intro conjI impI;
      (erule unresolved_operations no_client_resolution get_collection_unconnected))

theorem operations_without_handle_fail_witness:
  "fst (init refusing_driver standalone_config blank start) = Inl (ConnectionError (DriverError ''refused''))
   \<and> fst (snd (init refusing_driver standalone_config blank start)) = refused_handler
   \<and> mongo_client refused_handler = IsNone
   \<and> get_mongo_collection refused_handler ''d'' ''c'' = Inl TypeError
   \<and> mongo_insert empty_server refused_handler ''d'' ''c'' (PDict []) start = (Inl TypeError, start)
   \<and> mongo_find empty_server refused_handler ''d'' ''c'' (PDict []) PNone PNone PNone start = (Inl TypeError, start)
   \<and> mongo_update empty_server refused_handler ''d'' ''c'' (PDict []) (PDict []) start = (Inl TypeError, start)
   \<and> mongo_find_one empty_server refused_handler ''d'' ''c'' (PDict []) PNone PNone PNone start = (Inl TypeError, start)
   \<and> mongo_client blank = Unset
   \<and> get_mongo_db blank None = Inl AttributeError
   \<and> db unconnected = None
   \<and> get_collection unconnected ''c'' = Inl (PyException ''Database not connected. Call connect_db() first.'')"
proof -
  have b: "mongo_client blank = Unset"
    by (simp add: blank_def)
  note t1 = operations_without_handle_fail [where self = refused_handler and d = "''d''" and c = "''c''"
      and err = TypeError and drv = empty_server and w = start and query = "PDict []"
      and document = "PDict []" and upd = "PDict []" and hint = PNone and sort' = PNone
      and projection = PNone and cls = unconnected and name = "''c''"]
  note t2 = operations_without_handle_fail [where self = blank and n = None]
  from t1 refused_no_client unconnected_no_db have
    "get_mongo_collection refused_handler ''d'' ''c'' = Inl TypeError"
    "get_collection unconnected ''c'' = Inl (PyException ''Database not connected. Call connect_db() first.'')"
    by simp_all
  moreover from t1 this(1) have
    "mongo_insert empty_server refused_handler ''d'' ''c'' (PDict []) start = (Inl TypeError, start)"
    "mongo_find empty_server refused_handler ''d'' ''c'' (PDict []) PNone PNone PNone start = (Inl TypeError, start)"
    "mongo_update empty_server refused_handler ''d'' ''c'' (PDict []) (PDict []) start = (Inl TypeError, start)"
    "mongo_find_one empty_server refused_handler ''d'' ''c'' (PDict []) PNone PNone PNone start = (Inl TypeError, start)"
    by simp_all
  moreover from t2 b have "get_mongo_db blank None = Inl AttributeError"
    by simp
  ultimately show ?thesis
    using run_refused refused_no_client b unconnected_no_db by (intro conjI)
qed

text \<open>
  C2 as stated fails: after \<open>close_db\<close> the asynchronous connector still hands out a
  collection of the closed client.
\<close>

theorem collection_after_close_counterexample:
  "connect_db empty_server standalone_env unconnected start = (Inr (0, Some ''test''), connected_cls, connected_world)
   \<and> close_db empty_server connected_cls connected_world =
       (connected_cls, connected_world\<lparr>calls := calls connected_world @ [Close 0]\<rparr>)
   \<and> get_collection connected_cls ''c'' = Inr ((0, Some ''test''), ''c'')"
  using run_async run_close closed_collection
  by (intro conjI)

section \<open>Updates and finds\<close>

lemma ready_client: "mongo_client ready_handler = Client 0"
  by (simp add: ready_handler_def)

lemma client_collection:
  "mongo_client self = Client cl \<Longrightarrow> get_mongo_collection self d c = Inr (cl, d, c)"
  by (simp add: get_mongo_collection_def)

lemma driver_call_calls: "calls (snd (driver_call drv x w f)) = calls w @ [x]"
  by (simp add: driver_call_def invoke_def split: sum.splits)

lemma driver_call_result:
  "drv (calls w) x = Inr r \<Longrightarrow> fst (driver_call drv x w f) = f r"
  by (simp add: driver_call_def invoke_def)

lemma mongo_update_forwards:
  assumes "mongo_client self = Client cl"
  shows "calls (snd (mongo_update drv self d c query upd w))
      = calls w @ [UpdateMany (cl, d, c) query (PDict [(''$set'', upd)]) []]"
    and "drv (calls w) (UpdateMany (cl, d, c) query (PDict [(''$set'', upd)]) []) = Inr r \<Longrightarrow>
      fst (mongo_update drv self d c query upd w) = getattr r ''modified_count''"
  by (simp_all add: mongo_update_def client_collection [OF assms] driver_call_calls driver_call_result)

lemma mongo_update_one_forwards:
  assumes "mongo_client self = Client cl" "map_of kw ''filter'' = None"
  shows "calls (snd (mongo_update_one drv self d c query upd upsert kw w))
      = calls w @ [UpdateMany (cl, d, c) query upd ((''upsert'', upsert) # kw)]"
    and "drv (calls w) (UpdateMany (cl, d, c) query upd ((''upsert'', upsert) # kw)) = Inr r \<Longrightarrow>
      fst (mongo_update_one drv self d c query upd upsert kw w) = Inr r"
  by (simp_all add: mongo_update_one_def client_collection [OF assms(1)] assms(2)
      driver_call_calls driver_call_result)

lemma find_args_falsy:
  "find_args hint projection sort' =
     find_args (if truthy hint then hint else PNone) (if truthy projection then projection else PNone)
       (if truthy sort' then sort' else PNone)"
  by (simp add: find_args_def)

lemma mongo_find_forwards:
  assumes "mongo_client self = Client cl"
  shows "calls (snd (mongo_find drv self d c query hint sort' projection w))
      = calls w @ [IterCursor (cl, d, c) query projection
                     (if truthy hint then Some hint else None)
                     (if truthy sort' then Some sort' else None)]"
  by (simp add: mongo_find_def client_collection [OF assms] driver_call_calls)

lemma empty_server_update:
  "empty_server h (UpdateMany coll query upd kw) =
     Inr (PObj [(''matched_count'', PInt 0), (''modified_count'', PInt 0), (''upserted_id'', PNone)])"
  "getattr (PObj [(''matched_count'', PInt 0), (''modified_count'', PInt 0), (''upserted_id'', PNone)])
     ''modified_count'' = Inr (PInt 0)"
  by simp_all

text \<open>
  C7 (amended). \<open>mongo_update\<close> hands the caller's fields to \<open>update_many\<close> wrapped in
  \<open>$set\<close> and returns the modified-count the driver reports, so it returns 0 and raises
  nothing when the driver reports that nothing was modified. \<open>mongo_update_one\<close> hands
  the caller's update document to \<open>update_many\<close> as it is, with \<open>upsert\<close> and the further
  keyword arguments, and returns the driver's result object.
\<close>

theorem update_semantics:
  "(mongo_client self = Client cl \<longrightarrow>
      calls (snd (mongo_update drv self d c query upd w))
        = calls w @ [UpdateMany (cl, d, c) query (PDict [(''$set'', upd)]) []]
      \<and> (drv (calls w) (UpdateMany (cl, d, c) query (PDict [(''$set'', upd)]) []) = Inr r \<longrightarrow>
           fst (mongo_update drv self d c query upd w) = getattr r ''modified_count''))
   \<and> (mongo_client self = Client cl \<longrightarrow> map_of kw ''filter'' = None \<longrightarrow>
      calls (snd (mongo_update_one drv self d c query upd upsert kw w))
        = calls w @ [UpdateMany (cl, d, c) query upd ((''upsert'', upsert) # kw)]
      \<and> (drv (calls w) (UpdateMany (cl, d, c) query upd ((''upsert'', upsert) # kw)) = Inr r' \<longrightarrow>
           fst (mongo_update_one drv self d c query upd upsert kw w) = Inr r'))"
  by (intro conjI impI; (erule (1) mongo_update_forwards mongo_update_one_forwards)?;
      (erule mongo_update_forwards)?; (erule (2) mongo_update_one_forwards)?)

theorem update_semantics_witness:
  "mongo_client ready_handler = Client 0
   \<and> empty_server (calls ready_world)
        (UpdateMany (0, ''d'', ''c'') (PDict [(''a'', PInt 1)]) (PDict [(''$set'', PDict [(''b'', PInt 2)])]) [])
       = Inr (PObj [(''matched_count'', PInt 0), (''modified_count'', PInt 0), (''upserted_id'', PNone)])
   \<and> fst (mongo_update empty_server ready_handler ''d'' ''c'' (PDict [(''a'', PInt 1)]) (PDict [(''b'', PInt 2)])
        ready_world) = Inr (PInt 0)
   \<and> calls (snd (mongo_update empty_server ready_handler ''d'' ''c'' (PDict [(''a'', PInt 1)])
        (PDict [(''b'', PInt 2)]) ready_world))
       = calls ready_world
         @ [UpdateMany (0, ''d'', ''c'') (PDict [(''a'', PInt 1)]) (PDict [(''$set'', PDict [(''b'', PInt 2)])]) []]"
proof -
  note t = update_semantics [where self = ready_handler and cl = 0 and drv = empty_server
      and d = "''d''" and c = "''c''" and query = "PDict [(''a'', PInt 1)]"
      and upd = "PDict [(''b'', PInt 2)]" and w = ready_world
      and r = "PObj [(''matched_count'', PInt 0), (''modified_count'', PInt 0), (''upserted_id'', PNone)]"]
  from t ready_client empty_server_update(1) have
    "fst (mongo_update empty_server ready_handler ''d'' ''c'' (PDict [(''a'', PInt 1)]) (PDict [(''b'', PInt 2)])
        ready_world)
     = getattr (PObj [(''matched_count'', PInt 0), (''modified_count'', PInt 0), (''upserted_id'', PNone)])
         ''modified_count''"
    by blast
  then have "fst (mongo_update empty_server ready_handler ''d'' ''c'' (PDict [(''a'', PInt 1)]) (PDict [(''b'', PInt 2)])
        ready_world) = Inr (PInt 0)"
    unfolding empty_server_update(2) .
  moreover from t ready_client have
    "calls (snd (mongo_update empty_server ready_handler ''d'' ''c'' (PDict [(''a'', PInt 1)])
        (PDict [(''b'', PInt 2)]) ready_world))
       = calls ready_world
         @ [UpdateMany (0, ''d'', ''c'') (PDict [(''a'', PInt 1)]) (PDict [(''$set'', PDict [(''b'', PInt 2)])]) []]"
    by blast
  ultimately show ?thesis
    using ready_client empty_server_update(1) by (intro conjI)
qed

lemma run_update_one:
  "mongo_update_one empty_server ready_handler ''d'' ''c'' (PDict [(''a'', PInt 1)]) (PDict [(''b'', PInt 2)])
      (PBool False) [] ready_world
   = (Inr (PObj [(''matched_count'', PInt 0), (''modified_count'', PInt 0), (''upserted_id'', PNone)]),
      ready_world\<lparr>calls := calls ready_world
        @ [UpdateMany (0, ''d'', ''c'') (PDict [(''a'', PInt 1)]) (PDict [(''b'', PInt 2)])
             [(''upsert'', PBool False)]]\<rparr>)"
  by (simp add: mongo_update_one_def client_collection [OF ready_client] driver_call_def invoke_def)

text \<open>
  C7 as stated fails: \<open>mongo_update_one\<close> passes the fields \<open>{b: 2}\<close> to \<open>update_many\<close> as
  the update document itself, not under \<open>$set\<close>, and returns the result object, not a count.
\<close>

theorem update_one_without_set_counterexample:
  "mongo_update_one empty_server ready_handler ''d'' ''c'' (PDict [(''a'', PInt 1)]) (PDict [(''b'', PInt 2)])
      (PBool False) [] ready_world
   = (Inr (PObj [(''matched_count'', PInt 0), (''modified_count'', PInt 0), (''upserted_id'', PNone)]),
      ready_world\<lparr>calls := calls ready_world
        @ [UpdateMany (0, ''d'', ''c'') (PDict [(''a'', PInt 1)]) (PDict [(''b'', PInt 2)])
             [(''upsert'', PBool False)]]\<rparr>)"
  by (rule run_update_one)

text \<open>
  C10 (amended). In \<open>find_one\<close> a falsy hint, projection or sort is dropped: the call is
  the one made with that option left out. In \<open>find\<close> a falsy hint or sort is not applied
  to the cursor, but the projection is handed to the driver's \<open>find\<close> as given, falsy or
  not.
\<close>

theorem falsy_options:
  "mongo_find_one drv self d c query hint projection sort' w
     = mongo_find_one drv self d c query
         (if truthy hint then hint else PNone) (if truthy projection then projection else PNone)
         (if truthy sort' then sort' else PNone) w
   \<and> mongo_find drv self d c query hint sort' projection w
     = mongo_find drv self d c query
         (if truthy hint then hint else PNone) (if truthy sort' then sort' else PNone) projection w
   \<and> (mongo_client self = Client cl \<longrightarrow>
        calls (snd (mongo_find drv self d c query hint sort' projection w))
          = calls w @ [IterCursor (cl, d, c) query projection
                         (if truthy hint then Some hint else None)
                         (if truthy sort' then Some sort' else None)])"
proof (intro conjI impI)
  show "mongo_find_one drv self d c query hint projection sort' w
     = mongo_find_one drv self d c query
         (if truthy hint then hint else PNone) (if truthy projection then projection else PNone)
         (if truthy sort' then sort' else PNone) w"
    unfolding mongo_find_one_def find_args_falsy [of hint projection sort', symmetric] ..
  show "mongo_find drv self d c query hint sort' projection w
     = mongo_find drv self d c query
         (if truthy hint then hint else PNone) (if truthy sort' then sort' else PNone) projection w"
    by (simp add: mongo_find_def)
  assume "mongo_client self = Client cl"
  then show "calls (snd (mongo_find drv self d c query hint sort' projection w))
          = calls w @ [IterCursor (cl, d, c) query projection
                         (if truthy hint then Some hint else None)
                         (if truthy sort' then Some sort' else None)]"
    by (rule mongo_find_forwards)
qed

theorem falsy_options_witness:
  "mongo_find_one empty_server ready_handler ''d'' ''c'' (PDict []) (PDict []) (PList []) (PInt 0) ready_world
     = mongo_find_one empty_server ready_handler ''d'' ''c'' (PDict []) PNone PNone PNone ready_world
   \<and> mongo_find empty_server ready_handler ''d'' ''c'' (PDict []) (PDict []) (PList []) PNone ready_world
     = mongo_find empty_server ready_handler ''d'' ''c'' (PDict []) PNone PNone PNone ready_world
   \<and> mongo_client ready_handler = Client 0
   \<and> calls (snd (mongo_find empty_server ready_handler ''d'' ''c'' (PDict []) (PDict []) (PList []) PNone
        ready_world))
     = calls ready_world @ [IterCursor (0, ''d'', ''c'') (PDict []) PNone None None]"
proof -
  note t1 = falsy_options [where drv = empty_server and self = ready_handler and d = "''d''" and c = "''c''"
      and query = "PDict []" and hint = "PDict []" and projection = "PList []" and sort' = "PInt 0"
      and w = ready_world]
  note t2 = falsy_options [where drv = empty_server and self = ready_handler and d = "''d''" and c = "''c''"
      and query = "PDict []" and hint = "PDict []" and sort' = "PList []" and projection = PNone
      and w = ready_world and cl = 0]
  have a: "mongo_find_one empty_server ready_handler ''d'' ''c'' (PDict []) (PDict []) (PList []) (PInt 0) ready_world
     = mongo_find_one empty_server ready_handler ''d'' ''c'' (PDict []) PNone PNone PNone ready_world"
    using t1 [THEN conjunct1] by simp
  have b: "mongo_find empty_server ready_handler ''d'' ''c'' (PDict []) (PDict []) (PList []) PNone ready_world
     = mongo_find empty_server ready_handler ''d'' ''c'' (PDict []) PNone PNone PNone ready_world"
    using t2 [THEN conjunct2, THEN conjunct1] by simp
  have c: "calls (snd (mongo_find empty_server ready_handler ''d'' ''c'' (PDict []) (PDict []) (PList []) PNone
        ready_world))
     = calls ready_world @ [IterCursor (0, ''d'', ''c'') (PDict []) PNone None None]"
    using t2 [THEN conjunct2, THEN conjunct2, THEN mp, OF ready_client] by simp
  show ?thesis
    using a b ready_client c by (intro conjI)
qed

lemma run_find_empty_projection:
  "calls (snd (mongo_find empty_server ready_handler ''d'' ''c'' (PDict []) PNone PNone (PDict []) ready_world))
     = calls ready_world @ [IterCursor (0, ''d'', ''c'') (PDict []) (PDict []) None None]"
  "calls (snd (mongo_find empty_server ready_handler ''d'' ''c'' (PDict []) PNone PNone PNone ready_world))
     = calls ready_world @ [IterCursor (0, ''d'', ''c'') (PDict []) PNone None None]"
  by (simp_all add: mongo_find_forwards [OF ready_client])

text \<open>
  C10 as stated fails: \<open>find\<close> hands an empty projection to the driver, a call other than
  the one made when the projection is left out.
\<close>

theorem find_forwards_empty_projection_counterexample:
  "\<not> truthy (PDict [])
   \<and> calls (snd (mongo_find empty_server ready_handler ''d'' ''c'' (PDict []) PNone PNone (PDict []) ready_world))
     = calls ready_world @ [IterCursor (0, ''d'', ''c'') (PDict []) (PDict []) None None]
   \<and> calls (snd (mongo_find empty_server ready_handler ''d'' ''c'' (PDict []) PNone PNone PNone ready_world))
     = calls ready_world @ [IterCursor (0, ''d'', ''c'') (PDict []) PNone None None]
   \<and> IterCursor (0, ''d'', ''c'') (PDict []) (PDict []) None None
       \<noteq> IterCursor (0, ''d'', ''c'') (PDict []) PNone None None"
  using run_find_empty_projection by simp

section \<open>The connection life cycle\<close>

lemma init_initialized: "initialized self \<Longrightarrow> init drv cfg self w = (Inr (), self, w)"
  by (simp add: init_def)

text \<open>What a successful \<open>__init__\<close> on a handler that was not initialised has done.\<close>

lemma init_Inr:
  assumes "\<not> initialized self0" "init drv cfg self0 w = (Inr (), self, w')"
  shows "\<exists>dbname mongo_uri encoded_password kw.
     map_of cfg ''MONGO_DB'' = Some dbname \<and> init_build cfg = Inr (mongo_uri, encoded_password, kw) \<and>
     self = self0\<lparr>initialized := True, config := Some cfg, DEFAULT_MONGO_DB := Some dbname,
               mongo_client := Client (length (calls w))\<rparr> \<and>
     calls w' = calls w @ [NewClient (PStr mongo_uri) kw, Command (length (calls w)) (Some ''admin'') ''ping''] \<and>
     printed w' = printed w @ [attempt_line mongo_uri encoded_password, ''MongoDB connection successful.'']"
  using assms
  by (auto simp: init_def Let_def getitem_def invoke_def
      split: option.splits sum.splits prod.splits)

lemma init_Inl:
  assumes "init drv cfg self0 w = (Inl err, self, w')"
  shows "\<not> initialized self \<and> clients_created w' \<le> Suc (clients_created w)
     \<and> commands_sent w' \<le> Suc (commands_sent w)"
  using assms
  by (auto simp: init_def Let_def invoke_def clients_created_def commands_sent_def
      split: if_splits sum.splits prod.splits)

lemma connect_db_Inr:
  assumes "connect_db drv e cls w = (Inr d, cls', w')"
  shows "d = (length (calls w), DATABASE_NAME e)
     \<and> cls' = cls\<lparr>client := Some (length (calls w)), db := Some (length (calls w), DATABASE_NAME e)\<rparr>
     \<and> calls w' = calls w @ [NewClient (opt_val (MONGO_URI e)) (connect_kwargs e),
                              Command (length (calls w)) (DATABASE_NAME e) ''ping'']"
  using assms
  by (auto simp: connect_db_def Let_def invoke_def split: sum.splits prod.splits option.splits)

lemma connect_db_once:
  "clients_created (snd (snd (connect_db drv e cls w))) = Suc (clients_created w)"
  "commands_sent (snd (snd (connect_db drv e cls w))) \<le> Suc (commands_sent w)"
  by (auto simp: connect_db_def Let_def invoke_def clients_created_def commands_sent_def
      split: sum.splits prod.splits option.splits)

lemma close_db_keeps:
  "fst (close_db drv cls w) = cls"
  "clients_created (snd (close_db drv cls w)) = clients_created w"
  "commands_sent (snd (close_db drv cls w)) = commands_sent w"
  by (auto simp: close_db_def invoke_def clients_created_def commands_sent_def split: option.splits)

lemma driver_call_never_connects:
  assumes "\<not> is_NewClient x" "\<not> is_Command x"
  shows "clients_created (snd (driver_call drv x w f)) = clients_created w"
    "commands_sent (snd (driver_call drv x w f)) = commands_sent w"
  using assms by (simp_all add: clients_created_def commands_sent_def driver_call_calls)

lemma DatabaseHandler_twice:
  assumes "DatabaseHandler drv cfg (None, w) = (Inr (), inst, w')"
  shows "DatabaseHandler drv' cfg' (inst, w') = (Inr (), inst, w')"
    and "clients_created w' = Suc (clients_created w)"
proof -
  from assms obtain self where i: "init drv cfg blank w = (Inr (), self, w')" and s: "inst = Some self"
    by (auto simp: DatabaseHandler_def Let_def split: prod.splits)
  have nb: "\<not> initialized blank" by (simp add: blank_def)
  from init_Inr [OF nb i] obtain dbname mongo_uri encoded_password kw where
    self: "self = blank\<lparr>initialized := True, config := Some cfg, DEFAULT_MONGO_DB := Some dbname,
               mongo_client := Client (length (calls w))\<rparr>"
    and c: "calls w' = calls w @ [NewClient (PStr mongo_uri) kw, Command (length (calls w)) (Some ''admin'') ''ping'']"
    by blast
  from self have "initialized self" by simp
  then show "DatabaseHandler drv' cfg' (inst, w') = (Inr (), inst, w')"
    by (simp add: DatabaseHandler_def s init_initialized)
  show "clients_created w' = Suc (clients_created w)"
    by (simp add: clients_created_def c)
qed

lemma DatabaseHandler_ready:
  "initialized self \<Longrightarrow> DatabaseHandler drv cfg (Some self, w) = (Inr (), Some self, w)"
  by (simp add: DatabaseHandler_def init_initialized)

lemma connect_db_twice:
  assumes "connect_db drv e cls w = (Inr d1, cls1, w1)"
    and "connect_db drv' e' cls1 w1 = (Inr d2, cls2, w2)"
  shows "clients_created w2 = Suc (Suc (clients_created w))"
    and "client cls1 = Some (length (calls w))" and "client cls2 = Some (length (calls w) + 2)"
proof -
  note a = connect_db_Inr [OF assms(1)]
  note b = connect_db_Inr [OF assms(2)]
  from a show "client cls1 = Some (length (calls w))" by simp
  from a b show "client cls2 = Some (length (calls w) + 2)" by simp
  from a b show "clients_created w2 = Suc (Suc (clients_created w))"
    by (simp add: clients_created_def)
qed

lemma run_handler:
  "DatabaseHandler empty_server standalone_config (None, start) = (Inr (), Some ready_handler, ready_world)"
  by code_simp

lemma run_async_again:
  "connect_db empty_server standalone_env connected_cls connected_world =
     (Inr (2, Some ''test''), \<lparr>client = Some 2, db = Some (2, Some ''test'')\<rparr>,
      \<lparr>calls =
         [NewClient (PStr ''mongodb://h'')
            [(''retryWrites'', PBool True), (''w'', PStr ''majority''),
             (''serverSelectionTimeoutMS'', PInt 5000), (''directConnection'', PBool True)],
          Command 0 (Some ''test'') ''ping'',
          NewClient (PStr ''mongodb://h'')
            [(''retryWrites'', PBool True), (''w'', PStr ''majority''),
             (''serverSelectionTimeoutMS'', PInt 5000), (''directConnection'', PBool True)],
          Command 2 (Some ''test'') ''ping''],
       printed = []\<rparr>)"
  by code_simp

lemma connected_client: "client connected_cls = Some 0"
  by (simp add: connected_cls_def)

text \<open>
  C1 (amended). In the synchronous connector, when the first \<open>DatabaseHandler(config)\<close> on
  a fresh process has connected, exactly one client has been constructed, and a second call,
  whatever its configuration and whatever the driver would answer, returns at once: the
  instance, its handle and configuration and the world stay as they are. The same holds for
  every call on an initialised instance. The asynchronous \<open>connect_db\<close> has no such guard:
  a second successful call constructs a second client and replaces the handle.
\<close>

theorem connect_twice:
  "(DatabaseHandler drv cfg (None, w) = (Inr (), inst, w') \<longrightarrow>
      DatabaseHandler drv' cfg' (inst, w') = (Inr (), inst, w')
      \<and> clients_created w' = Suc (clients_created w))
   \<and> (initialized self \<longrightarrow> DatabaseHandler drv cfg (Some self, w) = (Inr (), Some self, w))
   \<and> (connect_db drv e cls w = (Inr d1, cls1, w1) \<longrightarrow> connect_db drv' e' cls1 w1 = (Inr d2, cls2, w2) \<longrightarrow>
      clients_created w2 = Suc (Suc (clients_created w))
      \<and> client cls1 = Some (length (calls w)) \<and> client cls2 = Some (length (calls w) + 2))"
proof (intro conjI impI)
  assume a: "DatabaseHandler drv cfg (None, w) = (Inr (), inst, w')"
  show "DatabaseHandler drv' cfg' (inst, w') = (Inr (), inst, w')"
    using a by (rule DatabaseHandler_twice(1))
  show "clients_created w' = Suc (clients_created w)"
    using a by (rule DatabaseHandler_twice(2))
next
  assume "initialized self"
  then show "DatabaseHandler drv cfg (Some self, w) = (Inr (), Some self, w)"
    by (rule DatabaseHandler_ready)
next
  assume b: "connect_db drv e cls w = (Inr d1, cls1, w1)" "connect_db drv' e' cls1 w1 = (Inr d2, cls2, w2)"
  show "clients_created w2 = Suc (Suc (clients_created w))"
    using b by (rule connect_db_twice(1))
  show "client cls1 = Some (length (calls w))"
    using b by (rule connect_db_twice(2))
  show "client cls2 = Some (length (calls w) + 2)"
    using b by (rule connect_db_twice(3))
qed

theorem connect_twice_witness:
  "DatabaseHandler empty_server standalone_config (None, start) = (Inr (), Some ready_handler, ready_world)
   \<and> DatabaseHandler refusing_driver replica_config (Some ready_handler, ready_world)
       = (Inr (), Some ready_handler, ready_world)
   \<and> clients_created ready_world = Suc (clients_created start)
   \<and> initialized ready_handler"
proof -
  note t = connect_twice [where drv = empty_server and cfg = standalone_config and w = start
      and inst = "Some ready_handler" and w' = ready_world and drv' = refusing_driver
      and cfg' = replica_config, THEN conjunct1, THEN mp, OF run_handler]
  have "initialized ready_handler" by (simp add: ready_handler_def)
  with t run_handler show ?thesis by (intro conjI) simp_all
qed

text \<open>
  C1 as stated fails: two \<open>connect_db\<close> calls in succession construct two clients, and the
  class then holds the second.
\<close>

theorem connect_db_twice_counterexample:
  "connect_db empty_server standalone_env unconnected start = (Inr (0, Some ''test''), connected_cls, connected_world)
   \<and> connect_db empty_server standalone_env connected_cls connected_world =
     (Inr (2, Some ''test''), \<lparr>client = Some 2, db = Some (2, Some ''test'')\<rparr>,
      \<lparr>calls =
         [NewClient (PStr ''mongodb://h'')
            [(''retryWrites'', PBool True), (''w'', PStr ''majority''),
             (''serverSelectionTimeoutMS'', PInt 5000), (''directConnection'', PBool True)],
          Command 0 (Some ''test'') ''ping'',
          NewClient (PStr ''mongodb://h'')
            [(''retryWrites'', PBool True), (''w'', PStr ''majority''),
             (''serverSelectionTimeoutMS'', PInt 5000), (''directConnection'', PBool True)],
          Command 2 (Some ''test'') ''ping''],
       printed = []\<rparr>)
   \<and> client connected_cls = Some 0"
  using run_async run_async_again connected_client
  by (intro conjI)

lemma run_flaky:
  "fst (DatabaseHandler flaky_server standalone_config (None, start))
     = Inl (ConnectionError (DriverError ''timed out''))"
  "map_option initialized (fst (snd (DatabaseHandler flaky_server standalone_config (None, start))))
     = Some False"
  "fst (DatabaseHandler flaky_server standalone_config
          (snd (DatabaseHandler flaky_server standalone_config (None, start)))) = Inr ()"
  "map_option initialized (fst (snd (DatabaseHandler flaky_server standalone_config
          (snd (DatabaseHandler flaky_server standalone_config (None, start)))))) = Some True"
  by code_simp+

lemma run_flaky_init:
  "fst (init flaky_server standalone_config blank start) = Inl (ConnectionError (DriverError ''timed out''))"
  by code_simp

lemma operations_never_connect:
  "clients_created (snd (mongo_insert drv h d c document w)) = clients_created w
   \<and> commands_sent (snd (mongo_insert drv h d c document w)) = commands_sent w"
  "clients_created (snd (mongo_find drv h d c query hint sort' projection w)) = clients_created w
   \<and> commands_sent (snd (mongo_find drv h d c query hint sort' projection w)) = commands_sent w"
  "clients_created (snd (mongo_update drv h d c query upd w)) = clients_created w
   \<and> commands_sent (snd (mongo_update drv h d c query upd w)) = commands_sent w"
  "clients_created (snd (mongo_update_one drv h d c query upd upsert kw w)) = clients_created w
   \<and> commands_sent (snd (mongo_update_one drv h d c query upd upsert kw w)) = commands_sent w"
  "clients_created (snd (mongo_delete drv h d c query w)) = clients_created w
   \<and> commands_sent (snd (mongo_delete drv h d c query w)) = commands_sent w"
  "clients_created (snd (mongo_insert_many drv h d c documents w)) = clients_created w
   \<and> commands_sent (snd (mongo_insert_many drv h d c documents w)) = commands_sent w"
  "clients_created (snd (mongo_aggregate drv h d c pipeline w)) = clients_created w
   \<and> commands_sent (snd (mongo_aggregate drv h d c pipeline w)) = commands_sent w"
  "clients_created (snd (get_distinct_values drv h d c field w)) = clients_created w
   \<and> commands_sent (snd (get_distinct_values drv h d c field w)) = commands_sent w"
  "clients_created (snd (mongo_find_one drv h d c query hint projection sort' w)) = clients_created w
   \<and> commands_sent (snd (mongo_find_one drv h d c query hint projection sort' w)) = commands_sent w"
  by (simp_all add: mongo_insert_def mongo_find_def mongo_update_def mongo_update_one_def
      mongo_delete_def mongo_insert_many_def mongo_aggregate_def get_distinct_values_def
      mongo_find_one_def driver_call_never_connects split: sum.splits)

text \<open>
  C8 (amended). Nothing retries by itself. A synchronous connect that fails leaves the
  instance not initialised and has constructed at most one client and sent at most one
  ping; every \<open>connect_db\<close> constructs exactly one client and sends at most one ping;
  \<open>close_db\<close> leaves the class attributes as they are and constructs nothing; no
  operation of the facade constructs a client or sends a ping. Only a further explicit
  connect call runs the start-up again, and the code lets it.
\<close>

theorem no_automatic_retry:
  "(init drv cfg self0 w = (Inl err, self, w') \<longrightarrow>
      \<not> initialized self \<and> clients_created w' \<le> Suc (clients_created w)
      \<and> commands_sent w' \<le> Suc (commands_sent w))
   \<and> clients_created (snd (snd (connect_db drv e cls w))) = Suc (clients_created w)
   \<and> commands_sent (snd (snd (connect_db drv e cls w))) \<le> Suc (commands_sent w)
   \<and> fst (close_db drv cls w) = cls
   \<and> clients_created (snd (close_db drv cls w)) = clients_created w
   \<and> commands_sent (snd (close_db drv cls w)) = commands_sent w
   \<and> clients_created (snd (mongo_insert drv h d c document w)) = clients_created w
   \<and> commands_sent (snd (mongo_insert drv h d c document w)) = commands_sent w
   \<and> clients_created (snd (mongo_find drv h d c query hint sort' projection w)) = clients_created w
   \<and> commands_sent (snd (mongo_find drv h d c query hint sort' projection w)) = commands_sent w
   \<and> clients_created (snd (mongo_update drv h d c query upd w)) = clients_created w
   \<and> commands_sent (snd (mongo_update drv h d c query upd w)) = commands_sent w
   \<and> clients_created (snd (mongo_update_one drv h d c query upd upsert kw w)) = clients_created w
   \<and> commands_sent (snd (mongo_update_one drv h d c query upd upsert kw w)) = commands_sent w
   \<and> clients_created (snd (mongo_delete drv h d c query w)) = clients_created w
   \<and> commands_sent (snd (mongo_delete drv h d c query w)) = commands_sent w
   \<and> clients_created (snd (mongo_insert_many drv h d c documents w)) = clients_created w
   \<and> commands_sent (snd (mongo_insert_many drv h d c documents w)) = commands_sent w
   \<and> clients_created (snd (mongo_aggregate drv h d c pipeline w)) = clients_created w
   \<and> commands_sent (snd (mongo_aggregate drv h d c pipeline w)) = commands_sent w
   \<and> clients_created (snd (get_distinct_values drv h d c field w)) = clients_created w
   \<and> commands_sent (snd (get_distinct_values drv h d c field w)) = commands_sent w
   \<and> clients_created (snd (mongo_find_one drv h d c query hint projection sort' w)) = clients_created w
   \<and> commands_sent (snd (mongo_find_one drv h d c query hint projection sort' w)) = commands_sent w"
proof (intro conjI impI)
  assume a: "init drv cfg self0 w = (Inl err, self, w')"
  from init_Inl [OF a] show "\<not> initialized self" "clients_created w' \<le> Suc (clients_created w)"
    "commands_sent w' \<le> Suc (commands_sent w)"
    by blast+
qed (rule connect_db_once close_db_keeps
    operations_never_connect [THEN conjunct1] operations_never_connect [THEN conjunct2])+

theorem no_automatic_retry_witness:
  "fst (init flaky_server standalone_config blank start) = Inl (ConnectionError (DriverError ''timed out''))
   \<and> \<not> initialized (fst (snd (init flaky_server standalone_config blank start)))
   \<and> clients_created (snd (snd (init flaky_server standalone_config blank start))) \<le> Suc (clients_created start)
   \<and> commands_sent (snd (snd (init flaky_server standalone_config blank start))) \<le> Suc (commands_sent start)"
proof -
  obtain r s x where p: "init flaky_server standalone_config blank start = (r, s, x)"
    by (rule prod_cases3)
  with run_flaky_init have r: "r = Inl (ConnectionError (DriverError ''timed out''))"
    by simp
  from no_automatic_retry [where drv = flaky_server and cfg = standalone_config and ?self0.0 = blank
      and w = start and err = "ConnectionError (DriverError ''timed out'')" and self = s and w' = x,
      THEN conjunct1, THEN mp] p r
  have "\<not> initialized s \<and> clients_created x \<le> Suc (clients_created start)
      \<and> commands_sent x \<le> Suc (commands_sent start)"
    by simp
  with p r show ?thesis by simp
qed

text \<open>
  C8 as stated fails: after a connect that failed on the ping, a second
  \<open>DatabaseHandler(config)\<close> runs the start-up again and the connector becomes ready.
\<close>

theorem reconnect_after_failure_counterexample:
  "fst (DatabaseHandler flaky_server standalone_config (None, start))
     = Inl (ConnectionError (DriverError ''timed out''))
   \<and> map_option initialized (fst (snd (DatabaseHandler flaky_server standalone_config (None, start))))
     = Some False
   \<and> fst (DatabaseHandler flaky_server standalone_config
          (snd (DatabaseHandler flaky_server standalone_config (None, start)))) = Inr ()
   \<and> map_option initialized (fst (snd (DatabaseHandler flaky_server standalone_config
          (snd (DatabaseHandler flaky_server standalone_config (None, start)))))) = Some True"
  using run_flaky by (intro conjI)

lemma ready_default_db: "DEFAULT_MONGO_DB ready_handler = Some ''test''"
  by (simp add: ready_handler_def)

text \<open>
  C9. \<open>get_mongo_db\<close> called without an argument resolves the database named \<open>panda\<close>,
  whatever \<open>DEFAULT_MONGO_DB\<close> the instance holds: the default of the parameter was
  computed from the class attribute, which is \<open>None\<close>. So after a connect with any
  \<open>MONGO_DB\<close> the call still gives the database \<open>panda\<close> of the client.
\<close>

theorem get_mongo_db_default_is_panda:
  "get_mongo_db self None = get_mongo_db self (Some ''panda'')
   \<and> get_mongo_db (self\<lparr>DEFAULT_MONGO_DB := x\<rparr>) None = get_mongo_db self None
   \<and> (\<not> initialized self0 \<longrightarrow> init drv cfg self0 w = (Inr (), self', w') \<longrightarrow>
        DEFAULT_MONGO_DB self' = map_of cfg ''MONGO_DB''
        \<and> get_mongo_db self' None = Inr (length (calls w), ''panda''))"
proof (intro conjI impI)
  show "get_mongo_db self None = get_mongo_db self (Some ''panda'')"
    by (simp add: get_mongo_db_def get_mongo_db_default_def class_DEFAULT_MONGO_DB_def)
  show "get_mongo_db (self\<lparr>DEFAULT_MONGO_DB := x\<rparr>) None = get_mongo_db self None"
    by (simp add: get_mongo_db_def)
  assume a: "\<not> initialized self0" "init drv cfg self0 w = (Inr (), self', w')"
  from init_Inr [OF a] obtain dbname where
    d: "map_of cfg ''MONGO_DB'' = Some dbname"
    and s: "self' = self0\<lparr>initialized := True, config := Some cfg, DEFAULT_MONGO_DB := Some dbname,
               mongo_client := Client (length (calls w))\<rparr>"
    by blast
  show "DEFAULT_MONGO_DB self' = map_of cfg ''MONGO_DB''"
    by (simp add: s d)
  show "get_mongo_db self' None = Inr (length (calls w), ''panda'')"
    by (simp add: s get_mongo_db_def get_mongo_db_default_def class_DEFAULT_MONGO_DB_def)
qed

theorem get_mongo_db_default_is_panda_witness:
  "\<not> initialized blank
   \<and> init empty_server standalone_config blank start = (Inr (), ready_handler, ready_world)
   \<and> DEFAULT_MONGO_DB ready_handler = Some ''test''
   \<and> get_mongo_db ready_handler None = Inr (0, ''panda'')"
proof -
  have nb: "\<not> initialized blank" by (simp add: blank_def)
  from get_mongo_db_default_is_panda [where ?self0.0 = blank and drv = empty_server
      and cfg = standalone_config and w = start and self' = ready_handler and w' = ready_world,
      THEN conjunct2, THEN conjunct2, THEN mp, THEN mp, OF nb run_standalone]
  have "get_mongo_db ready_handler None = Inr (length (calls start), ''panda'')"
    by simp
  then have "get_mongo_db ready_handler None = Inr (0, ''panda'')"
    by (simp add: start_def)
  with nb run_standalone ready_default_db show ?thesis by (intro conjI)
qed

end
